theory Spec2Isabelle
  imports Complex_Main
begin

section \<open>Tensors\<close>

text \<open>
  The solver of \<^verbatim>\<open>lintorch/fcns/solve.py\<close> works on tensors of shape
  \<open>(nbatch, na, ncols)\<close> and on bias tensors of shape \<open>(nbatch, ncols)\<close>.
  A tensor is embedded as the nested list of its entries, outermost dimension first.
  Entries are real numbers: arithmetic is exact, so rounding, infinities and NaN of the
  floating-point substrate are outside the embedding. The exceptions the tensor library
  itself throws (shapes that do not broadcast, a reduction over an empty tensor) are
  outside as well: the elementwise operations below are total and agree with the library
  on shapes that broadcast.
\<close>

type_synonym tensor = "real list list list"
type_synonym bias = "real list list"

definition bcast :: "('a \<Rightarrow> 'b \<Rightarrow> 'c) \<Rightarrow> 'a list \<Rightarrow> 'b list \<Rightarrow> 'c list" where
  \<comment> \<open>one dimension of a broadcasting binary operation: a dimension of size 1 is stretched\<close>
  "bcast f xs ys =
     (case xs of
        [x] \<Rightarrow> map (f x) ys
      | _ \<Rightarrow> (case ys of [y] \<Rightarrow> map (\<lambda>x. f x y) xs | _ \<Rightarrow> map2 f xs ys))"

definition tensor_op :: "(real \<Rightarrow> real \<Rightarrow> real) \<Rightarrow> tensor \<Rightarrow> tensor \<Rightarrow> tensor" where
  "tensor_op f = bcast (bcast (bcast f))"

definition tadd :: "tensor \<Rightarrow> tensor \<Rightarrow> tensor" where
  "tadd = tensor_op (+)"

definition tsub :: "tensor \<Rightarrow> tensor \<Rightarrow> tensor" where
  "tsub = tensor_op (-)"

definition tmul :: "tensor \<Rightarrow> tensor \<Rightarrow> tensor" where
  "tmul = tensor_op (*)"

definition tdiv :: "tensor \<Rightarrow> tensor \<Rightarrow> tensor" where
  "tdiv = tensor_op (/)"

definition tneg :: "tensor \<Rightarrow> tensor" where
  "tneg = map (map (map uminus))"

definition tabs :: "tensor \<Rightarrow> tensor" where
  "tabs = map (map (map abs))"

definition flat :: "tensor \<Rightarrow> real list" where
  "flat T = concat (concat T)"

definition tmax :: "tensor \<Rightarrow> real" where
  \<comment> \<open>\<^verbatim>\<open>T.max()\<close>: the largest entry\<close>
  "tmax T = Max (set (flat T))"

definition zeros_like :: "tensor \<Rightarrow> tensor" where
  "zeros_like = map (map (map (\<lambda>_. 0)))"

definition allclose :: "tensor \<Rightarrow> tensor \<Rightarrow> bool" where
  \<comment> \<open>\<^verbatim>\<open>torch.allclose(input, other)\<close> with its defaults \<open>rtol = 1e-5\<close>, \<open>atol = 1e-8\<close>\<close>
  "allclose inp other =
     list_all (\<lambda>(i, o'). \<bar>i - o'\<bar> \<le> 1 / 100000000 + (1 / 100000) * \<bar>o'\<bar>) (zip (flat inp) (flat other))"

definition unsqueeze1 :: "bias \<Rightarrow> tensor" where
  \<comment> \<open>\<^verbatim>\<open>biases.unsqueeze(1)\<close>: shape \<open>(nbatch, ncols)\<close> to \<open>(nbatch, 1, ncols)\<close>\<close>
  "unsqueeze1 = map (\<lambda>row. [row])"

fun sum_rows :: "real list list \<Rightarrow> real list" where
  "sum_rows [] = []"
| "sum_rows [r] = r"
| "sum_rows (r # rs) = map2 (+) r (sum_rows rs)"

definition sum_dim1 :: "tensor \<Rightarrow> bias" where
  \<comment> \<open>\<^verbatim>\<open>T.sum(dim=1)\<close>: shape \<open>(nbatch, na, ncols)\<close> to \<open>(nbatch, ncols)\<close>, for \<open>na > 0\<close>\<close>
  "sum_dim1 = map sum_rows"

definition sum_dim1_keepdim :: "tensor \<Rightarrow> tensor" where
  \<comment> \<open>\<^verbatim>\<open>T.sum(dim=1, keepdim=True)\<close>: shape \<open>(nbatch, 1, ncols)\<close>\<close>
  "sum_dim1_keepdim T = unsqueeze1 (sum_dim1 T)"

definition dim1 :: "tensor \<Rightarrow> nat" where
  \<comment> \<open>the \<open>na\<close> of \<^verbatim>\<open>nbatch, na, ncols = B.shape\<close>\<close>
  "dim1 B = (case B of [] \<Rightarrow> 0 | b # _ \<Rightarrow> length b)"

definition has_shape :: "nat \<Rightarrow> nat \<Rightarrow> nat \<Rightarrow> tensor \<Rightarrow> bool" where
  "has_shape nb n nc T \<longleftrightarrow>
     length T = nb \<and> list_all (\<lambda>m. length m = n \<and> list_all (\<lambda>r. length r = nc) m) T"

definition bias_shape :: "nat \<Rightarrow> nat \<Rightarrow> bias \<Rightarrow> bool" where
  "bias_shape nb nc b \<longleftrightarrow> length b = nb \<and> list_all (\<lambda>r. length r = nc) b"

section \<open>Errors and options\<close>

datatype error = RuntimeError string | KeyError string | AttributeError string

record options =
  method_name :: "string option"
  max_niter :: "int option"
  min_eps :: "real option"
  verbose :: "bool option"

definition no_options :: options where
  \<comment> \<open>the empty dictionary \<^verbatim>\<open>{}\<close>\<close>
  "no_options = \<lparr>method_name = None, max_niter = None, min_eps = None, verbose = None\<rparr>"

definition or_default :: "'a option \<Rightarrow> 'a option \<Rightarrow> 'a option" where
  "or_default d v = (case v of Some x \<Rightarrow> Some x | None \<Rightarrow> d)"

text \<open>
  Modelled from the spec: \<^verbatim>\<open>set_default_option\<close> of \<^verbatim>\<open>lintorch.utils.misc\<close> is
  not among the sources. The specification says that it merges a user-supplied partial
  configuration dictionary with the defaults; a key of the user's dictionary wins over the
  default of the same key.
\<close>

definition set_default_option :: "options \<Rightarrow> options \<Rightarrow> options" where
  "set_default_option defopt opt =
     \<lparr>method_name = or_default (method_name defopt) (method_name opt),
      max_niter = or_default (max_niter defopt) (max_niter opt),
      min_eps = or_default (min_eps defopt) (min_eps opt),
      verbose = or_default (verbose defopt) (verbose opt)\<rparr>"

definition getitem :: "string \<Rightarrow> 'a option \<Rightarrow> error + 'a" where
  \<comment> \<open>\<^verbatim>\<open>config[key]\<close>: a missing key raises\<close>
  "getitem key v = (case v of Some x \<Rightarrow> Inr x | None \<Rightarrow> Inl (KeyError key))"

definition lower_char :: "char \<Rightarrow> char" where
  "lower_char c =
     (let n = (of_char c :: nat) in if 65 \<le> n \<and> n \<le> 90 then char_of (n + 32) else c)"

definition lower :: "string \<Rightarrow> string" where
  \<comment> \<open>\<^verbatim>\<open>str.lower()\<close> on the ASCII letters; no other character lowers to an ASCII letter
      of \<open>conjgrad\<close>\<close>
  "lower = map lower_char"

section \<open>Linear operators\<close>

text \<open>
  Modelled from the spec: the class \<^verbatim>\<open>lintorch.Module\<close> is not among the sources.
  The specification gives it as a capability: an application \<open>A(X, *params)\<close>, the flag
  \<open>is_symmetric\<close>, the declared \<open>shape\<close> and an optional preconditioner
  \<open>precond(X, *params, biases, M, mparams)\<close>. The parameters are a list of tensors of any
  rank, kept abstract as \<open>'p\<close>. The operator \<open>M\<close> on the bias side is never asked for
  a preconditioner of its own, so it is the record without that field.
\<close>

record 'p linop =
  call :: "tensor \<Rightarrow> 'p list \<Rightarrow> tensor"
  is_symmetric :: bool
  shape :: "nat \<times> nat"

record 'p module = "'p linop" +
  precond :: "(tensor \<Rightarrow> 'p list \<Rightarrow> bias option \<Rightarrow> 'p linop option \<Rightarrow> 'p list \<Rightarrow> tensor) option"

section \<open>Numeric primitives\<close>

definition clamp_entry :: "real \<Rightarrow> real \<Rightarrow> real" where
  \<comment> \<open>one entry of \<^verbatim>\<open>C[C.abs() < eps] = eps\<close>\<close>
  "clamp_entry eps c = (if \<bar>c\<bar> < eps then eps else c)"

definition safe_divide_eps :: "tensor \<Rightarrow> tensor \<Rightarrow> real \<Rightarrow> tensor" where
  "safe_divide_eps A B eps = (let C = map (map (map (clamp_entry eps))) B in tdiv A C)"

definition safe_divide :: "tensor \<Rightarrow> tensor \<Rightarrow> tensor" where
  \<comment> \<open>\<^verbatim>\<open>_safe_divide(A, B)\<close> with the default \<open>eps = 1e-10\<close>\<close>
  "safe_divide A B = safe_divide_eps A B (1 / 10000000000)"

definition dot :: "tensor \<Rightarrow> tensor \<Rightarrow> tensor" where
  \<comment> \<open>\<^verbatim>\<open>_dot(C, D)\<close>\<close>
  "dot C D = sum_dim1_keepdim (tmul C D)"

section \<open>The conjugate-gradient solver\<close>

text \<open>
  The loop variables of \<^verbatim>\<open>conjgrad\<close>. The field \<open>st_niter\<close> is not a variable of the
  source: it counts the executions of the loop body, so that a statement about the number
  of iterations can be made. Nothing reads it. The \<^verbatim>\<open>print\<close> of the verbose mode is
  not modelled.
\<close>

record cg_state =
  st_X :: tensor
  st_R :: tensor
  st_P :: tensor
  st_Rs_old :: tensor
  st_niter :: nat

fun cg_loop :: "(tensor \<Rightarrow> tensor) \<Rightarrow> (tensor \<Rightarrow> tensor) \<Rightarrow> real \<Rightarrow> nat \<Rightarrow> cg_state \<Rightarrow> cg_state" where
  \<comment> \<open>\<^verbatim>\<open>for i in range(config["max_niter"])\<close>, the fourth argument being the iterations left\<close>
  "cg_loop A precond' min_eps' 0 st = st"
| "cg_loop A precond' min_eps' (Suc k) st =
     (let Ap = A (st_P st);
          alpha = safe_divide (st_Rs_old st) (dot (st_P st) Ap);
          X = tadd (st_X st) (tmul alpha (st_P st));
          R = tsub (st_R st) (tmul alpha Ap);
          prR = precond' R;
          Rs_new = dot R prR;
          eps_max = tmax (tabs Rs_new)
      in if eps_max < min_eps'
         then st\<lparr>st_X := X, st_R := R, st_niter := Suc (st_niter st)\<rparr>
         else cg_loop A precond' min_eps' k
                \<lparr>st_X = X, st_R = R,
                 st_P = tadd prR (tmul (safe_divide Rs_new (st_Rs_old st)) (st_P st)),
                 st_Rs_old = Rs_new, st_niter = Suc (st_niter st)\<rparr>)"

definition conjgrad_precond :: "'p module \<Rightarrow> 'p list \<Rightarrow> bias option \<Rightarrow> 'p linop option \<Rightarrow> 'p list \<Rightarrow> tensor \<Rightarrow> tensor" where
  \<comment> \<open>lines 143 to 148: the registered preconditioner when \<^verbatim>\<open>is_precond_set()\<close> holds,
      that is when the field is not \<open>None\<close>, and the identity otherwise\<close>
  "conjgrad_precond At params biases M mparams =
     (case precond At of
        Some pf \<Rightarrow> (\<lambda>X. pf X params biases M mparams)
      | None \<Rightarrow> (\<lambda>X. X))"

definition conjgrad_Aa :: "'p module \<Rightarrow> 'p list \<Rightarrow> bias option \<Rightarrow> 'p linop option \<Rightarrow> 'p list \<Rightarrow> tensor \<Rightarrow> tensor" where
  \<comment> \<open>lines 150 to 158: the shifted operator\<close>
  "conjgrad_Aa At params biases M mparams =
     (case biases of
        Some bs \<Rightarrow>
          (let b = unsqueeze1 bs in
           case M of
             Some Mm \<Rightarrow> (\<lambda>X. tsub (call At X params) (tmul (call Mm X mparams) b))
           | None \<Rightarrow> (\<lambda>X. tsub (call At X params) (tmul X b)))
      | None \<Rightarrow> (\<lambda>X. call At X params))"

definition conjgrad_run :: "'p module \<Rightarrow> 'p list \<Rightarrow> tensor \<Rightarrow> bias option \<Rightarrow> 'p linop option \<Rightarrow> 'p list \<Rightarrow> options \<Rightarrow> error + (tensor \<times> nat)" where
  \<comment> \<open>the body of \<^verbatim>\<open>conjgrad\<close>; the result pairs the returned \<open>X\<close> with the number of
      loop bodies executed\<close>
  "conjgrad_run At params B0 biases M mparams opts =
     (let na = dim1 B0;
          config = set_default_option
            \<lparr>method_name = None, max_niter = Some (int na), min_eps = Some (1 / 1000000),
             verbose = Some False\<rparr> opts
      in if \<not> is_symmetric At
         then Inl (RuntimeError ''This function only works for real-symmetric matrix.'')
         else
           (let precond0 = conjgrad_precond At params biases M mparams;
                Aa = conjgrad_Aa At params biases M mparams;
                precondt = precond0;
                B = Aa B0;
                A = (\<lambda>X. Aa (Aa X));
                precond' = (\<lambda>X. precondt (precondt X))
            in case getitem ''verbose'' (verbose config) of
                 Inl e \<Rightarrow> Inl e
               | Inr verbose' \<Rightarrow>
             (case getitem ''min_eps'' (min_eps config) of
                 Inl e \<Rightarrow> Inl e
               | Inr min_eps' \<Rightarrow>
             (let X = zeros_like B
              in if allclose B X
                 then Inr (X, 0)
                 else
                   (let R = tsub B (A X);
                        P = precond' R;
                        Rs_old = dot R P
                    in case getitem ''max_niter'' (max_niter config) of
                         Inl e \<Rightarrow> Inl e
                       | Inr max_niter' \<Rightarrow>
                           (let st = cg_loop A precond' min_eps' (nat max_niter')
                                       \<lparr>st_X = X, st_R = R, st_P = P, st_Rs_old = Rs_old,
                                        st_niter = 0\<rparr>
                            in Inr (st_X st, st_niter st)))))))"

definition conjgrad :: "'p module \<Rightarrow> 'p list \<Rightarrow> tensor \<Rightarrow> bias option \<Rightarrow> 'p linop option \<Rightarrow> 'p list \<Rightarrow> options \<Rightarrow> error + tensor" where
  \<comment> \<open>what \<^verbatim>\<open>conjgrad\<close> returns: the \<open>X\<close> of the run\<close>
  "conjgrad At params B0 biases M mparams opts =
     (case conjgrad_run At params B0 biases M mparams opts of
        Inl e \<Rightarrow> Inl e
      | Inr (X, k) \<Rightarrow> Inr X)"

definition conjgrad_niter :: "'p module \<Rightarrow> 'p list \<Rightarrow> tensor \<Rightarrow> bias option \<Rightarrow> 'p linop option \<Rightarrow> 'p list \<Rightarrow> options \<Rightarrow> error + nat" where
  \<comment> \<open>the number of loop bodies the same run executes\<close>
  "conjgrad_niter At params B0 biases M mparams opts =
     (case conjgrad_run At params B0 biases M mparams opts of
        Inl e \<Rightarrow> Inl e
      | Inr (X, k) \<Rightarrow> Inr k)"

section \<open>The differentiable solve\<close>

record 'p ctx =
  bck_config :: options
  ctx_A :: "'p module"
  ctx_M :: "'p linop option"
  ctx_biases :: "bias option"
  ctx_x :: tensor
  ctx_params :: "'p list"
  ctx_mparams :: "'p list"

definition default_method :: options where
  \<comment> \<open>the dictionary \<^verbatim>\<open>{"method": "conjgrad"}\<close>\<close>
  "default_method = \<lparr>method_name = Some ''conjgrad'', max_niter = None, min_eps = None, verbose = None\<rparr>"

definition solve_torchfcn_forward :: "'p module \<Rightarrow> tensor \<Rightarrow> bias option \<Rightarrow> 'p linop option \<Rightarrow> options \<Rightarrow> options \<Rightarrow> nat \<Rightarrow> 'p list \<Rightarrow> error + (tensor \<times> 'p ctx)" where
  "solve_torchfcn_forward A B biases M fwd_options bck_options na AMparams =
     (let params = take na AMparams;
          mparams = drop na AMparams;
          config = set_default_option default_method fwd_options;
          bck = set_default_option default_method bck_options
      in if \<not> is_symmetric A
         then Inl (RuntimeError
           ''The solve function cannot be used for non-symmetric transformation at the moment.'')
         else if fst (shape A) \<noteq> snd (shape A)
         then Inl (RuntimeError
           ''The solve function cannot be used for non-square transformation.'')
         else
           (case getitem ''method'' (method_name config) of
              Inl e \<Rightarrow> Inl e
            | Inr m \<Rightarrow>
                (let method' = lower m
                 in if method' = ''conjgrad''
                    then (case conjgrad A params B biases M mparams config of
                            Inl e \<Rightarrow> Inl e
                          | Inr x \<Rightarrow>
                              Inr (x, \<lparr>bck_config = bck, ctx_A = A, ctx_M = M,
                                       ctx_biases = biases, ctx_x = x, ctx_params = params,
                                       ctx_mparams = mparams\<rparr>))
                    else Inl (RuntimeError (''Unknown solve method: '' @ m)))))"

definition solve_apply :: "'p module \<Rightarrow> 'p list \<Rightarrow> tensor \<Rightarrow> bias option \<Rightarrow> 'p linop option \<Rightarrow> 'p list \<Rightarrow> options \<Rightarrow> options \<Rightarrow> error + (tensor \<times> 'p ctx)" where
  \<comment> \<open>the body of \<^verbatim>\<open>solve\<close>, with the context that \<^verbatim>\<open>solve_torchfcn.apply\<close> keeps
      for the backward pass\<close>
  "solve_apply A params B biases M mparams fwd_options bck_options =
     (let na = length params;
          M' = (if biases = None then None else M)
      in solve_torchfcn_forward A B biases M' fwd_options bck_options na (params @ mparams))"

definition solve :: "'p module \<Rightarrow> 'p list \<Rightarrow> tensor \<Rightarrow> bias option \<Rightarrow> 'p linop option \<Rightarrow> 'p list \<Rightarrow> options \<Rightarrow> options \<Rightarrow> error + tensor" where
  "solve A params B biases M mparams fwd_options bck_options =
     (case solve_apply A params B biases M mparams fwd_options bck_options of
        Inl e \<Rightarrow> Inl e
      | Inr (x, c) \<Rightarrow> Inr x)"

text \<open>
  The tuple that \<^verbatim>\<open>backward\<close> returns has \<^verbatim>\<open>None\<close> at the positions of \<open>A\<close>, \<open>M\<close>,
  the two option dictionaries and \<open>na\<close>; the record keeps the other positions.
\<close>

record 'p grads =
  grad_B :: tensor
  grad_biases :: "bias option"
  grad_params :: "'p list"
  grad_mparams :: "'p list"

text \<open>
  The automatic-differentiation engine is outside the repository. It enters as the
  parameter \<open>vjp\<close>: \<open>vjp f ps v\<close> stands for
  \<^verbatim>\<open>torch.autograd.grad((f(ps),), ps, grad_outputs=(v,))\<close>, the vector-Jacobian product
  of \<open>f\<close> at \<open>ps\<close> seeded by \<open>v\<close>. The engine can raise, for instance on a
  parameter that the output does not depend on, so its result is an error or the list of
  gradients; an error of the engine is the error of the backward call. On an empty list
  of inputs the engine always raises: \<open>autograd_grad\<close> writes this case out.
\<close>

type_synonym 'p engine = "('p list \<Rightarrow> tensor) \<Rightarrow> 'p list \<Rightarrow> tensor \<Rightarrow> error + 'p list"

definition autograd_grad :: "'p engine \<Rightarrow> ('p list \<Rightarrow> tensor) \<Rightarrow> 'p list \<Rightarrow> tensor \<Rightarrow> error + 'p list" where
  "autograd_grad vjp f ps v =
     (if ps = [] then Inl (RuntimeError ''grad requires non-empty inputs.'') else vjp f ps v)"

definition solve_torchfcn_backward :: "'p engine \<Rightarrow> 'p ctx \<Rightarrow> tensor \<Rightarrow> error + 'p grads" where
  "solve_torchfcn_backward vjp c grad_x =
     (case solve (ctx_A c) (ctx_params c) grad_x (ctx_biases c) (ctx_M c) (ctx_mparams c)
             (bck_config c) (bck_config c) of
        Inl e \<Rightarrow> Inl e
      | Inr v \<Rightarrow>
          (let grad_B' = v;
               grad_biases' =
                 (case ctx_biases c of
                    None \<Rightarrow> None
                  | Some bs \<Rightarrow>
                      (let Mx = (case ctx_M c of
                                   None \<Rightarrow> ctx_x c
                                 | Some Mm \<Rightarrow> call Mm (ctx_x c) (ctx_mparams c))
                       in Some (sum_dim1 (tmul v Mx))))
           in case autograd_grad vjp (\<lambda>ps. tneg (call (ctx_A c) (ctx_x c) ps))
                     (ctx_params c) v of
                Inl e \<Rightarrow> Inl e
              | Inr grad_params' \<Rightarrow>
                  (case ctx_M c of
                     None \<Rightarrow>
                       Inr \<lparr>grad_B = grad_B', grad_biases = grad_biases',
                            grad_params = grad_params', grad_mparams = []\<rparr>
                   | Some Mm \<Rightarrow>
                       (case ctx_biases c of
                          None \<Rightarrow> Inl (AttributeError
                            ([CHR 0x27] @ ''NoneType'' @ [CHR 0x27] @
                             '' object has no attribute '' @ [CHR 0x27] @ ''unsqueeze'' @
                             [CHR 0x27]))
                        | Some bs \<Rightarrow>
                            (let lmbdax = tmul (ctx_x c) (unsqueeze1 bs)
                             in case autograd_grad vjp (\<lambda>mps. call Mm lmbdax mps)
                                       (ctx_mparams c) v of
                                  Inl e \<Rightarrow> Inl e
                                | Inr grad_mparams' \<Rightarrow>
                                    Inr \<lparr>grad_B = grad_B', grad_biases = grad_biases',
                                         grad_params = grad_params',
                                         grad_mparams = grad_mparams'\<rparr>)))))"

text \<open>
  The number of loop bodies a call of \<open>solve\<close> executes. Like \<open>conjgrad_niter\<close> it is
  not a value of the source: it follows the control flow of \<^verbatim>\<open>forward\<close>, whose three
  \<^verbatim>\<open>raise\<close> statements stand before and after the only call of \<^verbatim>\<open>conjgrad\<close>, and
  counts what that call executes.
\<close>

definition solve_niter :: "'p module \<Rightarrow> 'p list \<Rightarrow> tensor \<Rightarrow> bias option \<Rightarrow> 'p linop option \<Rightarrow> 'p list \<Rightarrow> options \<Rightarrow> options \<Rightarrow> nat" where
  "solve_niter A params B biases M mparams fwd_options bck_options =
     (let na = length params;
          M' = (if biases = None then None else M);
          AMparams = params @ mparams;
          config = set_default_option default_method fwd_options
      in if \<not> is_symmetric A then 0
         else if fst (shape A) \<noteq> snd (shape A) then 0
         else
           (case getitem ''method'' (method_name config) of
              Inl e \<Rightarrow> 0
            | Inr m \<Rightarrow>
                if lower m = ''conjgrad''
                then (case conjgrad_niter A (take na AMparams) B biases M' (drop na AMparams)
                             config of
                        Inl e \<Rightarrow> 0
                      | Inr k \<Rightarrow> k)
                else 0))"

section \<open>The algorithm as the specification words it\<close>

text \<open>
  The definitions of this section follow the specification, not the source; the theorems
  compare them with the embedding of the source above.
\<close>

definition shifted_op :: "'p module \<Rightarrow> 'p list \<Rightarrow> bias option \<Rightarrow> 'p linop option \<Rightarrow> 'p list \<Rightarrow> tensor \<Rightarrow> tensor" where
  \<comment> \<open>\<open>Aa(X) = A(X, params)\<close> without a bias, else \<open>A(X, params) - bias * M(X, mparams)\<close>,
      \<open>M\<close> being the identity when absent\<close>
  "shifted_op A params biases M mparams X =
     (case biases of
        None \<Rightarrow> call A X params
      | Some bs \<Rightarrow>
          tsub (call A X params)
            (tmul (unsqueeze1 bs) (case M of None \<Rightarrow> X | Some Mm \<Rightarrow> call Mm X mparams)))"

definition registered_precond :: "'p module \<Rightarrow> 'p list \<Rightarrow> bias option \<Rightarrow> 'p linop option \<Rightarrow> 'p list \<Rightarrow> tensor \<Rightarrow> tensor" where
  \<comment> \<open>\<open>P\<close>: the preconditioner registered with the operator, or the identity\<close>
  "registered_precond A params biases M mparams X =
     (case precond A of None \<Rightarrow> X | Some pf \<Rightarrow> pf X params biases M mparams)"

type_synonym cg_vars = "tensor \<times> tensor \<times> tensor \<times> tensor"

definition cg_update :: "(tensor \<Rightarrow> tensor) \<Rightarrow> (tensor \<Rightarrow> tensor) \<Rightarrow> cg_vars \<Rightarrow> cg_vars" where
  \<comment> \<open>from \<open>(X, R, P, rho)\<close> to the updated \<open>(X, R, Z, rho_new)\<close>\<close>
  "cg_update Aeff Peff s =
     (case s of (X, R, P, rho) \<Rightarrow>
        let Q = Aeff P;
            alpha = safe_divide rho (dot P Q);
            X' = tadd X (tmul alpha P);
            R' = tsub R (tmul alpha Q);
            Z = Peff R';
            rho_new = dot R' Z
        in (X', R', Z, rho_new))"

definition cg_converged :: "(tensor \<Rightarrow> tensor) \<Rightarrow> (tensor \<Rightarrow> tensor) \<Rightarrow> real \<Rightarrow> cg_vars \<Rightarrow> bool" where
  \<comment> \<open>the maximum absolute value of \<open>rho_new\<close> over the whole batch is below the threshold\<close>
  "cg_converged Aeff Peff min_residual s =
     (case cg_update Aeff Peff s of (X', R', Z, rho_new) \<Rightarrow>
        tmax (tabs rho_new) < min_residual)"

definition cg_advance :: "(tensor \<Rightarrow> tensor) \<Rightarrow> (tensor \<Rightarrow> tensor) \<Rightarrow> cg_vars \<Rightarrow> cg_vars" where
  \<comment> \<open>the variables of the next iteration: \<open>P <- Z + safe_divide(rho_new, rho) * P\<close> and
      \<open>rho <- rho_new\<close>\<close>
  "cg_advance Aeff Peff s =
     (case s of (X, R, P, rho) \<Rightarrow>
        (case cg_update Aeff Peff s of (X', R', Z, rho_new) \<Rightarrow>
           (X', R', tadd Z (tmul (safe_divide rho_new rho) P), rho_new)))"

definition cg_step :: "(tensor \<Rightarrow> tensor) \<Rightarrow> (tensor \<Rightarrow> tensor) \<Rightarrow> real \<Rightarrow> cg_vars \<Rightarrow> tensor + cg_vars" where
  \<comment> \<open>one iteration: \<open>Inl X\<close> stops and returns the just-updated \<open>X\<close>\<close>
  "cg_step Aeff Peff min_residual s =
     (if cg_converged Aeff Peff min_residual s then Inl (fst (cg_update Aeff Peff s))
      else Inr (cg_advance Aeff Peff s))"

fun cg_iterate :: "(tensor \<Rightarrow> tensor) \<Rightarrow> (tensor \<Rightarrow> tensor) \<Rightarrow> real \<Rightarrow> nat \<Rightarrow> cg_vars \<Rightarrow> tensor" where
  "cg_iterate Aeff Peff min_residual 0 s = fst s"
| "cg_iterate Aeff Peff min_residual (Suc k) s =
     (case cg_step Aeff Peff min_residual s of
        Inl X \<Rightarrow> X
      | Inr s' \<Rightarrow> cg_iterate Aeff Peff min_residual k s')"

definition solve_cg :: "(tensor \<Rightarrow> tensor) \<Rightarrow> tensor \<Rightarrow> (tensor \<Rightarrow> tensor) \<Rightarrow> nat \<Rightarrow> real \<Rightarrow> tensor" where
  \<comment> \<open>section 4.2: \<open>solve_cg(Aeff, Beff, Peff, options)\<close>\<close>
  "solve_cg Aeff Beff Peff max_iterations min_residual =
     (let X0 = zeros_like Beff
      in if allclose Beff X0 then X0
         else
           (let R0 = tsub Beff (Aeff X0);
                Z0 = Peff R0;
                rho0 = dot R0 Z0
            in cg_iterate Aeff Peff min_residual max_iterations (X0, R0, Z0, rho0)))"

definition cg_vars_of :: "cg_state \<Rightarrow> cg_vars" where
  "cg_vars_of st = (st_X st, st_R st, st_P st, st_Rs_old st)"

definition max_iterations_of :: "options \<Rightarrow> tensor \<Rightarrow> nat" where
  \<comment> \<open>\<open>max_iterations\<close>, by default the system dimension \<open>n\<close>\<close>
  "max_iterations_of opts B = nat (case max_niter opts of Some k \<Rightarrow> k | None \<Rightarrow> int (dim1 B))"

definition min_residual_of :: "options \<Rightarrow> real" where
  \<comment> \<open>\<open>min_residual\<close>, by default \<open>1e-6\<close>\<close>
  "min_residual_of opts = (case min_eps opts of Some e \<Rightarrow> e | None \<Rightarrow> 1 / 1000000)"


definition times_bias :: "nat \<Rightarrow> nat \<Rightarrow> nat \<Rightarrow> tensor \<Rightarrow> bias \<Rightarrow> tensor" where
  \<comment> \<open>\<open>x * bias\<close>: every column of every batch member scaled by its bias\<close>
  "times_bias nb n nc x bs =
     map (\<lambda>b. map (\<lambda>i. map (\<lambda>c. x ! b ! i ! c * bs ! b ! c) [0..<nc]) [0..<n]) [0..<nb]"

definition negated :: "nat \<Rightarrow> nat \<Rightarrow> nat \<Rightarrow> tensor \<Rightarrow> tensor" where
  \<comment> \<open>\<open>- T\<close>: every entry of a tensor of shape \<open>(batch, n, cols)\<close> with its sign changed\<close>
  "negated nb n nc T =
     map (\<lambda>b. map (\<lambda>i. map (\<lambda>c. - (T ! b ! i ! c)) [0..<nc]) [0..<n]) [0..<nb]"

definition is_structural_error :: "error \<Rightarrow> bool" where
  "is_structural_error e \<longleftrightarrow>
     e = RuntimeError
       ''The solve function cannot be used for non-symmetric transformation at the moment.'' \<or>
     e = RuntimeError ''The solve function cannot be used for non-square transformation.''"

definition is_configuration_error :: "error \<Rightarrow> bool" where
  "is_configuration_error e \<longleftrightarrow>
     (case e of RuntimeError msg \<Rightarrow> take 22 msg = ''Unknown solve method: '' | _ \<Rightarrow> False)"

definition requested_method :: "options \<Rightarrow> string" where
  \<comment> \<open>the method name a call asks for, \<open>conjgrad\<close> when the options name none\<close>
  "requested_method opts = (case method_name opts of Some m \<Rightarrow> m | None \<Rightarrow> ''conjgrad'')"

section \<open>Example operators\<close>

definition twice :: "nat \<Rightarrow> unit module" where
  \<comment> \<open>the operator \<open>X \<mapsto> 2 X\<close> on systems of dimension \<open>n\<close>\<close>
  "twice n = \<lparr>call = (\<lambda>X ps. map (map (map (\<lambda>x. 2 * x))) X), is_symmetric = True,
            shape = (n, n), precond = None\<rparr>"

definition diag12 :: "unit module" where
  \<comment> \<open>the operator of the matrix \<open>diag(1, 2)\<close>\<close>
  "diag12 = \<lparr>call = (\<lambda>X ps. map (\<lambda>m. case m of [r1, r2] \<Rightarrow> [r1, map (\<lambda>x. 2 * x) r2] | _ \<Rightarrow> m) X),
             is_symmetric = True, shape = (2, 2), precond = None\<rparr>"

definition flagged_nonsymmetric :: "unit module" where
  "flagged_nonsymmetric = (twice 1)\<lparr>is_symmetric := False\<rparr>"

definition thrice :: "nat \<Rightarrow> unit linop" where
  \<comment> \<open>the operator \<open>X \<mapsto> 3 X\<close>, used on the bias side\<close>
  "thrice n = \<lparr>call = (\<lambda>X ps. map (map (map (\<lambda>x. 3 * x))) X), is_symmetric = True,
             shape = (n, n)\<rparr>"

definition rot2 :: "real list list \<Rightarrow> real list list" where
  \<comment> \<open>the quarter turn \<open>(r1, r2) \<mapsto> (- r2, r1)\<close> of a system of dimension 2\<close>
  "rot2 m = (case m of [r1, r2] \<Rightarrow> [map uminus r2, r1] | _ \<Rightarrow> m)"

definition diag12_rot :: "unit module" where
  \<comment> \<open>\<open>diag(1, 2)\<close> with the quarter turn registered as preconditioner\<close>
  "diag12_rot = diag12\<lparr>precond := Some (\<lambda>X ps b M mps. map rot2 X)\<rparr>"

definition scale_by :: "nat \<Rightarrow> (real list) module" where
  \<comment> \<open>the operator \<open>X \<mapsto> s X\<close>, \<open>s\<close> being the sum of the entries of the parameters\<close>
  "scale_by n = \<lparr>call = (\<lambda>X ps. map (map (map (\<lambda>x. sum_list (concat ps) * x))) X),
                 is_symmetric = True, shape = (n, n), precond = None\<rparr>"

definition scale_by_M :: "nat \<Rightarrow> (real list) linop" where
  \<comment> \<open>the same operator, used on the bias side\<close>
  "scale_by_M n = \<lparr>call = (\<lambda>X ps. map (map (map (\<lambda>x. sum_list (concat ps) * x))) X),
                   is_symmetric = True, shape = (n, n)\<rparr>"

definition affine_vjp :: "(real list) engine" where
  \<comment> \<open>an engine that is exact on functions affine in the parameters: the gradient of an
      entry of a parameter is the seed times the increment of the output under a unit
      step of that entry\<close>
  "affine_vjp f ps v =
     Inr (map (\<lambda>j. map (\<lambda>k. sum_list (map2 (*) (flat v)
                 (flat (tsub (f (ps[j := (ps ! j)[k := ps ! j ! k + 1]])) (f ps)))))
               [0..<length (ps ! j)])
            [0..<length ps])"

definition ex_ctx :: "(real list) ctx" where
  \<comment> \<open>the context that the forward pass of the example keeps: \<open>A = 2\<close>, \<open>M = 3\<close>, bias 5
      and the solution \<open>x = (1, 2)\<close> of \<open>(A - 5 M) x = (-13, -26)\<close>\<close>
  "ex_ctx = \<lparr>bck_config = set_default_option default_method no_options, ctx_A = scale_by 2,
             ctx_M = Some (scale_by_M 2), ctx_biases = Some [[5]], ctx_x = [[[1], [2]]],
             ctx_params = [[2]], ctx_mparams = [[3]]\<rparr>"

definition ex_grads :: "(real list) grads" where
  "ex_grads = \<lparr>grad_B = [[[-1], [-2]]], grad_biases = Some [[-15]], grad_params = [[5]],
               grad_mparams = [[-25]]\<rparr>"

section \<open>Lemmas on tensors\<close>

lemma map2_flip: "map2 (\<lambda>x y. g y x) xs ys = map2 g ys xs"
  by (induction xs ys rule: list_induct2') auto

lemma bcast_flip: "bcast (\<lambda>x y. g y x) xs ys = bcast g ys xs"
proof -
  have "map2 (\<lambda>x y. g y x) xs ys = map2 g ys xs"
    by (rule map2_flip)
  then show ?thesis
    by (auto simp: bcast_def split: list.splits)
qed

lemma bcast_commute:
  assumes "\<And>x y. f x y = g y x"
  shows "bcast f xs ys = bcast g ys xs"
proof -
  have f: "f = (\<lambda>x y. g y x)"
    using assms by (intro ext)
  show ?thesis
    unfolding f by (rule bcast_flip)
qed

lemma tmul_commute: "tmul X Y = tmul Y X"
proof -
  have 1: "bcast (*) r (r' :: real list) = bcast (*) r' r" for r r'
    by (rule bcast_commute) (rule mult.commute)
  have 2: "bcast (bcast (*)) m (m' :: real list list) = bcast (bcast (*)) m' m" for m m'
    by (rule bcast_commute) (rule 1)
  show ?thesis
    unfolding tmul_def tensor_op_def by (rule bcast_commute) (rule 2)
qed

lemma conjgrad_Aa_shifted_op:
  "conjgrad_Aa A params biases M mparams = shifted_op A params biases M mparams"
  by (auto simp: conjgrad_Aa_def shifted_op_def fun_eq_iff Let_def tmul_commute split: option.splits)

lemma conjgrad_precond_registered:
  "conjgrad_precond A params biases M mparams = registered_precond A params biases M mparams"
  by (auto simp: conjgrad_precond_def registered_precond_def fun_eq_iff split: option.splits)

lemma has_shape_nth:
  "has_shape nb n nc T \<longleftrightarrow>
     length T = nb \<and> (\<forall>b<nb. length (T ! b) = n \<and> (\<forall>i<n. length (T ! b ! i) = nc))"
  by (auto simp: has_shape_def list_all_length)

lemma bias_shape_nth:
  "bias_shape nb nc bs \<longleftrightarrow> length bs = nb \<and> (\<forall>b<nb. length (bs ! b) = nc)"
  by (auto simp: bias_shape_def list_all_length)

lemma tensor_eqI:
  assumes "has_shape nb n nc X" "has_shape nb n nc Y"
    and "\<And>b i c. b < nb \<Longrightarrow> i < n \<Longrightarrow> c < nc \<Longrightarrow> X ! b ! i ! c = Y ! b ! i ! c"
  shows "X = Y"
proof (rule nth_equalityI)
  show "length X = length Y"
    using assms(1,2) by (simp add: has_shape_nth)
next
  fix b assume b: "b < length X"
  then have bn: "b < nb" using assms(1) by (simp add: has_shape_nth)
  show "X ! b = Y ! b"
  proof (rule nth_equalityI)
    show "length (X ! b) = length (Y ! b)"
      using assms(1,2) bn by (simp add: has_shape_nth)
  next
    fix i assume "i < length (X ! b)"
    then have i: "i < n" using assms(1) bn by (simp add: has_shape_nth)
    show "X ! b ! i = Y ! b ! i"
    proof (rule nth_equalityI)
      show "length (X ! b ! i) = length (Y ! b ! i)"
        using assms(1,2) bn i by (simp add: has_shape_nth)
    next
      fix c assume "c < length (X ! b ! i)"
      then have "c < nc" using assms(1) bn i by (simp add: has_shape_nth)
      then show "X ! b ! i ! c = Y ! b ! i ! c"
        using assms(3) bn i by simp
    qed
  qed
qed

lemma bcast_same: "length xs = length ys \<Longrightarrow> bcast f xs ys = map2 f xs ys"
  by (auto simp: bcast_def split: list.splits)


lemma bcast_left1: "bcast f [x] ys = map (f x) ys"
  by (simp add: bcast_def)

lemma bcast_same_length: "length xs = length ys \<Longrightarrow> length (bcast f xs ys) = length xs"
  by (simp add: bcast_same)

lemma bcast_same_nth:
  "length xs = length ys \<Longrightarrow> i < length xs \<Longrightarrow> bcast f xs ys ! i = f (xs ! i) (ys ! i)"
  by (simp add: bcast_same)

lemma tensor_op_shape:
  assumes "has_shape nb n nc X" "has_shape nb n nc Y"
  shows "has_shape nb n nc (tensor_op f X Y)"
  using assms
  by (simp add: has_shape_nth tensor_op_def bcast_same_length bcast_same_nth)

lemma tensor_op_nth:
  assumes "has_shape nb n nc X" "has_shape nb n nc Y" "b < nb" "i < n" "c < nc"
  shows "tensor_op f X Y ! b ! i ! c = f (X ! b ! i ! c) (Y ! b ! i ! c)"
  using assms
  by (simp add: has_shape_nth tensor_op_def bcast_same_nth)

lemma unsqueeze1_shape: "bias_shape nb nc bs \<Longrightarrow> has_shape nb 1 nc (unsqueeze1 bs)"
  by (simp add: bias_shape_nth has_shape_nth unsqueeze1_def)




text \<open>left operand of shape (nb, 1, nc)\<close>

lemma tensor_op_lrow_eq:
  assumes "has_shape nb 1 nc X" "has_shape nb n nc Y" "b < nb"
  shows "\<exists>r. X ! b = [r] \<and> length r = nc \<and> tensor_op f X Y ! b = map (bcast f r) (Y ! b)"
proof -
  have "length (X ! b) = 1" "length (X ! b ! 0) = nc"
    using assms by (simp_all add: has_shape_nth)
  then obtain r where r: "X ! b = [r]" "length r = nc"
    by (cases "X ! b") auto
  have "tensor_op f X Y ! b = map (bcast f r) (Y ! b)"
    using assms r by (simp add: has_shape_nth tensor_op_def bcast_same_nth bcast_left1)
  then show ?thesis using r by blast
qed

lemma tensor_op_lrow_shape:
  assumes "has_shape nb 1 nc X" "has_shape nb n nc Y"
  shows "has_shape nb n nc (tensor_op f X Y)"
  unfolding has_shape_nth
proof (intro conjI allI impI)
  show "length (tensor_op f X Y) = nb"
    using assms by (simp add: has_shape_nth tensor_op_def bcast_same_length)
next
  fix b assume b: "b < nb"
  obtain r where r: "X ! b = [r]" "length r = nc" "tensor_op f X Y ! b = map (bcast f r) (Y ! b)"
    using tensor_op_lrow_eq[OF assms b] by blast
  show "length (tensor_op f X Y ! b) = n"
    using assms b by (simp add: r has_shape_nth)
  fix i assume i: "i < n"
  show "length (tensor_op f X Y ! b ! i) = nc"
    using assms b i r by (simp add: has_shape_nth bcast_same_length)
qed

lemma tensor_op_lrow_nth:
  assumes "has_shape nb 1 nc X" "has_shape nb n nc Y" "b < nb" "i < n" "c < nc"
  shows "tensor_op f X Y ! b ! i ! c = f (X ! b ! 0 ! c) (Y ! b ! i ! c)"
proof -
  obtain r where r: "X ! b = [r]" "length r = nc" "tensor_op f X Y ! b = map (bcast f r) (Y ! b)"
    using tensor_op_lrow_eq[OF assms(1,2,3)] by blast
  show ?thesis
    using assms r by (simp add: has_shape_nth bcast_same_nth)
qed

lemma zeros_like_shape: "has_shape nb n nc T \<Longrightarrow> has_shape nb n nc (zeros_like T)"
  by (simp add: has_shape_nth zeros_like_def)

lemma zeros_like_nth:
  "has_shape nb n nc T \<Longrightarrow> b < nb \<Longrightarrow> i < n \<Longrightarrow> c < nc \<Longrightarrow> zeros_like T ! b ! i ! c = 0"
  by (simp add: has_shape_nth zeros_like_def)

lemma zeros_like_idem: "zeros_like (zeros_like T) = zeros_like T"
  by (simp add: zeros_like_def comp_def)

lemma sum_rows_length:
  "rows \<noteq> [] \<Longrightarrow> \<forall>r\<in>set rows. length r = nc \<Longrightarrow> length (sum_rows rows) = nc"
  by (induction rows rule: sum_rows.induct) auto

lemma sum_rows_nth:
  "rows \<noteq> [] \<Longrightarrow> \<forall>r\<in>set rows. length r = nc \<Longrightarrow> c < nc \<Longrightarrow>
     sum_rows rows ! c = (\<Sum>i<length rows. rows ! i ! c)"
proof (induction rows rule: sum_rows.induct)
  case 1
  then show ?case by simp
next
  case (2 r)
  then show ?case by simp
next
  case (3 r v va)
  have len: "length (sum_rows (v # va)) = nc"
    using 3 by (intro sum_rows_length) auto
  have "sum_rows (r # v # va) ! c = r ! c + sum_rows (v # va) ! c"
    using 3 len by simp
  also have "sum_rows (v # va) ! c = (\<Sum>i<length (v # va). (v # va) ! i ! c)"
    using 3 by simp
  also have "r ! c + (\<Sum>i<length (v # va). (v # va) ! i ! c) =
      (\<Sum>i<length (r # v # va). (r # v # va) ! i ! c)"
    by (simp add: sum.lessThan_Suc_shift del: sum.lessThan_Suc)
  finally show ?case .
qed

section \<open>The solver unfolded\<close>

lemma getitem_Some: "getitem key (Some v) = Inr v"
  by (simp add: getitem_def)

lemma or_default_Some:
  "or_default (Some d) v = Some (case v of Some x \<Rightarrow> x | None \<Rightarrow> d)"
  by (simp add: or_default_def split: option.splits)

lemma cg_loop_iterate:
  "st_X (cg_loop A P e k st) = cg_iterate A P e k (cg_vars_of st)"
proof (induction k arbitrary: st)
  case 0
  show ?case by (simp add: cg_vars_of_def)
next
  case (Suc k)
  show ?case
    by (simp add: Suc.IH cg_step_def cg_converged_def cg_advance_def cg_update_def
        cg_vars_of_def Let_def)
qed

lemma conjgrad_run_unfold:
  assumes "is_symmetric A"
  shows "conjgrad_run A params B biases M mparams opts =
     (let Aa = shifted_op A params biases M mparams;
          Pr = registered_precond A params biases M mparams;
          Beff = Aa B;
          X0 = zeros_like Beff
      in if allclose Beff X0 then Inr (X0, 0)
         else
           (let R0 = tsub Beff (Aa (Aa X0));
                st = cg_loop (\<lambda>X. Aa (Aa X)) (\<lambda>X. Pr (Pr X)) (min_residual_of opts)
                       (max_iterations_of opts B)
                       \<lparr>st_X = X0, st_R = R0, st_P = Pr (Pr R0),
                        st_Rs_old = dot R0 (Pr (Pr R0)), st_niter = 0\<rparr>
            in Inr (st_X st, st_niter st)))"
  using assms
  by (simp add: conjgrad_run_def conjgrad_Aa_shifted_op conjgrad_precond_registered
      set_default_option_def or_default_Some getitem_Some Let_def
      max_iterations_of_def min_residual_of_def)

lemma conjgrad_solve_cg:
  assumes "is_symmetric A"
  shows "conjgrad A params B biases M mparams opts =
     Inr (solve_cg (\<lambda>X. shifted_op A params biases M mparams (shifted_op A params biases M mparams X))
            (shifted_op A params biases M mparams B)
            (\<lambda>X. registered_precond A params biases M mparams (registered_precond A params biases M mparams X))
            (max_iterations_of opts B) (min_residual_of opts))"
  using assms
  by (simp add: conjgrad_def conjgrad_run_unfold solve_cg_def Let_def cg_loop_iterate cg_vars_of_def)

lemma shifted_op_no_bias:
  "shifted_op A params None M mparams = shifted_op A params None None mparams"
  by (simp add: shifted_op_def fun_eq_iff)

lemma max_iterations_of_default [simp]:
  "max_iterations_of (set_default_option default_method opts) B = max_iterations_of opts B"
  by (simp add: max_iterations_of_def set_default_option_def default_method_def or_default_def
      split: option.splits)

lemma min_residual_of_default [simp]:
  "min_residual_of (set_default_option default_method opts) = min_residual_of opts"
  by (simp add: min_residual_of_def set_default_option_def default_method_def or_default_def
      split: option.splits)

lemma method_default:
  "method_name (set_default_option default_method opts) =
     Some (case method_name opts of Some m \<Rightarrow> m | None \<Rightarrow> ''conjgrad'')"
  by (simp add: set_default_option_def default_method_def or_default_Some)

lemma lower_conjgrad: "lower ''conjgrad'' = ''conjgrad''"
  by code_simp

lemma solve_apply_unfold:
  "solve_apply A params B biases M mparams fwd bck =
     (if \<not> is_symmetric A then Inl (RuntimeError
           ''The solve function cannot be used for non-symmetric transformation at the moment.'')
      else if fst (shape A) \<noteq> snd (shape A) then Inl (RuntimeError
           ''The solve function cannot be used for non-square transformation.'')
      else if lower (requested_method fwd) \<noteq> ''conjgrad''
        then Inl (RuntimeError (''Unknown solve method: '' @ requested_method fwd))
      else (case conjgrad A params B biases (if biases = None then None else M) mparams
                   (set_default_option default_method fwd) of
              Inl e \<Rightarrow> Inl e
            | Inr x \<Rightarrow> Inr (x, \<lparr>bck_config = set_default_option default_method bck, ctx_A = A,
                  ctx_M = (if biases = None then None else M), ctx_biases = biases, ctx_x = x,
                  ctx_params = params, ctx_mparams = mparams\<rparr>)))"
  by (simp add: solve_apply_def solve_torchfcn_forward_def Let_def method_default getitem_Some
      requested_method_def split: sum.splits)

text \<open>
  Claim C9. A call of \<open>solve\<close> that supplies \<open>M\<close> but no bias returns what the call
  with neither \<open>M\<close> nor bias returns, for every operator, parameter list, right-hand side
  and pair of option dictionaries: without a bias \<open>M\<close> is never applied. The context
  kept for the backward pass is the same as well.
\<close>

theorem solve_ignores_M_without_bias:
  "solve A params B None (Some M) mparams fwd_options bck_options =
     solve A params B None None mparams fwd_options bck_options \<and>
   solve_apply A params B None (Some M) mparams fwd_options bck_options =
     solve_apply A params B None None mparams fwd_options bck_options"
  by (simp add: solve_def solve_apply_def)

text \<open>
  Claim C1. A call of \<open>solve\<close> that is dispatched to the conjugate-gradient method (the
  operator is flagged symmetric and is square, and the method name is \<open>conjgrad\<close> up to
  case) returns the result of the conjugate-gradient solver of section 4.2 run on the
  squared operator \<open>Aeff = Aa \<circ> Aa\<close>, the right-hand side \<open>Beff = Aa(B)\<close> and the
  preconditioner \<open>Peff = P \<circ> P\<close>. Here \<open>Aa\<close> is the shifted operator \<open>shifted_op\<close>
  and \<open>P\<close> is the registered preconditioner, or the identity when none is registered.
  The registered preconditioner is handed the \<open>M\<close> that \<open>solve\<close> keeps, which is
  absent when the bias is absent.
\<close>

theorem solve_runs_cg_on_squared_operator:
  assumes "is_symmetric A" and "fst (shape A) = snd (shape A)"
    and "lower (requested_method fwd_options) = ''conjgrad''"
  shows "solve A params B biases M mparams fwd_options bck_options =
     Inr (solve_cg
            (\<lambda>X. shifted_op A params biases M mparams (shifted_op A params biases M mparams X))
            (shifted_op A params biases M mparams B)
            (\<lambda>X. registered_precond A params biases (if biases = None then None else M) mparams
                   (registered_precond A params biases (if biases = None then None else M) mparams X))
            (max_iterations_of fwd_options B) (min_residual_of fwd_options))"
proof (cases biases)
  case None
  show ?thesis
    using assms
    by (simp add: solve_def solve_apply_unfold conjgrad_solve_cg None
        shifted_op_no_bias[of A params M mparams])
next
  case (Some bs)
  show ?thesis
    using assms
    by (simp add: solve_def solve_apply_unfold conjgrad_solve_cg Some)
qed

lemma twice_sym: "is_symmetric (twice n)"
  by (simp add: twice_def)

lemma twice_square: "fst (shape (twice n)) = snd (shape (twice n))"
  by (simp add: twice_def)

lemma twice_no_precond: "registered_precond (twice n) ps b M mps = (\<lambda>X. X)"
  by (simp add: registered_precond_def twice_def fun_eq_iff)

lemma default_options_conjgrad: "lower (requested_method no_options) = ''conjgrad''"
  by (simp add: requested_method_def no_options_def lower_conjgrad)

lemma ex_backward_solve:
  "solve (twice 1) [] [[[13]]] (Some [[5]]) (Some (thrice 1)) [] no_options no_options = Inr [[[-1]]]"
  by code_simp

theorem solve_runs_cg_on_squared_operator_witness:
  "solve (twice 1) [] [[[13]]] (Some [[5]]) (Some (thrice 1)) [] no_options no_options =
     Inr (solve_cg
            (\<lambda>X. shifted_op (twice 1) [] (Some [[5]]) (Some (thrice 1)) []
                   (shifted_op (twice 1) [] (Some [[5]]) (Some (thrice 1)) [] X))
            (shifted_op (twice 1) [] (Some [[5]]) (Some (thrice 1)) [] [[[13]]])
            (\<lambda>X. X) 1 (1 / 1000000)) \<and>
   shifted_op (twice 1) [] (Some [[5]]) (Some (thrice 1)) [] [[[13]]] = [[[-169]]] \<and>
   solve (twice 1) [] [[[13]]] (Some [[5]]) (Some (thrice 1)) [] no_options no_options = Inr [[[-1]]]"
proof -
  have 4: "max_iterations_of no_options [[[13]]] = 1" "min_residual_of no_options = 1 / 1000000"
    by (simp_all add: max_iterations_of_def min_residual_of_def no_options_def dim1_def)
  have 5: "shifted_op (twice 1) [] (Some [[5]]) (Some (thrice 1)) [] [[[13]]] = [[[-169]]]"
    by code_simp
  show ?thesis
    using solve_runs_cg_on_squared_operator[OF twice_sym twice_square default_options_conjgrad,
        of 1 "[]" "[[[13]]]" "Some [[5]]" "Some (thrice 1)" "[]" no_options]
      ex_backward_solve 5
    by (simp add: twice_no_precond 4)
qed

section \<open>Validation of the operator and of the method\<close>

lemma solve_unfold:
  "solve A params B biases M mparams fwd bck =
     (if \<not> is_symmetric A then Inl (RuntimeError
           ''The solve function cannot be used for non-symmetric transformation at the moment.'')
      else if fst (shape A) \<noteq> snd (shape A) then Inl (RuntimeError
           ''The solve function cannot be used for non-square transformation.'')
      else if lower (requested_method fwd) \<noteq> ''conjgrad''
        then Inl (RuntimeError (''Unknown solve method: '' @ requested_method fwd))
      else conjgrad A params B biases (if biases = None then None else M) mparams
                   (set_default_option default_method fwd))"
  by (simp add: solve_def solve_apply_unfold split: sum.splits)

lemma solve_niter_unfold:
  "solve_niter A params B biases M mparams fwd bck =
     (if \<not> is_symmetric A then 0
      else if fst (shape A) \<noteq> snd (shape A) then 0
      else if lower (requested_method fwd) \<noteq> ''conjgrad'' then 0
      else (case conjgrad_niter A params B biases (if biases = None then None else M) mparams
                   (set_default_option default_method fwd) of
              Inl e \<Rightarrow> 0
            | Inr k \<Rightarrow> k))"
  by (simp add: solve_niter_def Let_def method_default getitem_Some requested_method_def)

text \<open>
  Claim C5. A call of \<open>solve\<close> first validates the operator and then resolves the
  method name (section 4.4 of the specification). If the operator is not flagged
  symmetric or is not square, the call raises a structural error; if the operator passes
  both checks and the method name is not \<open>conjgrad\<close>, compared after lowering its case,
  the call raises a configuration error; in each of these cases no result is returned and
  no iteration of the solver has been executed. A method name that lowers to
  \<open>conjgrad\<close> is dispatched to the conjugate-gradient solver.
\<close>

theorem solve_validation_errors:
  "(\<not> is_symmetric A \<or> fst (shape A) \<noteq> snd (shape A) \<longrightarrow>
      (\<exists>e. solve A params B biases M mparams fwd_options bck_options = Inl e \<and>
           is_structural_error e) \<and>
      solve_niter A params B biases M mparams fwd_options bck_options = 0) \<and>
   (is_symmetric A \<and> fst (shape A) = snd (shape A) \<and>
    lower (requested_method fwd_options) \<noteq> ''conjgrad'' \<longrightarrow>
      (\<exists>e. solve A params B biases M mparams fwd_options bck_options = Inl e \<and>
           is_configuration_error e) \<and>
      solve_niter A params B biases M mparams fwd_options bck_options = 0) \<and>
   (\<not> is_symmetric A \<or> fst (shape A) \<noteq> snd (shape A) \<or>
    lower (requested_method fwd_options) \<noteq> ''conjgrad'' \<longrightarrow>
      (\<exists>e. solve A params B biases M mparams fwd_options bck_options = Inl e)) \<and>
   (\<not> is_symmetric A \<longrightarrow>
      solve A params B biases M mparams fwd_options bck_options = Inl (RuntimeError
        ''The solve function cannot be used for non-symmetric transformation at the moment.'')) \<and>
   (is_symmetric A \<and> fst (shape A) \<noteq> snd (shape A) \<longrightarrow>
      solve A params B biases M mparams fwd_options bck_options = Inl (RuntimeError
        ''The solve function cannot be used for non-square transformation.'')) \<and>
   (is_symmetric A \<and> fst (shape A) = snd (shape A) \<and>
    lower (requested_method fwd_options) \<noteq> ''conjgrad'' \<longrightarrow>
      solve A params B biases M mparams fwd_options bck_options =
        Inl (RuntimeError (''Unknown solve method: '' @ requested_method fwd_options))) \<and>
   (is_symmetric A \<and> fst (shape A) = snd (shape A) \<and>
    lower (requested_method fwd_options) = ''conjgrad'' \<longrightarrow>
      solve A params B biases M mparams fwd_options bck_options =
        conjgrad A params B biases (if biases = None then None else M) mparams
          (set_default_option default_method fwd_options) \<and>
      solve_niter A params B biases M mparams fwd_options bck_options =
        (case conjgrad_niter A params B biases (if biases = None then None else M) mparams
                (set_default_option default_method fwd_options) of
           Inl e \<Rightarrow> 0
         | Inr k \<Rightarrow> k))"
  by (simp add: solve_unfold solve_niter_unfold is_structural_error_def
      is_configuration_error_def)

lemma unknown_method: "lower (requested_method (no_options\<lparr>method_name := Some ''newton''\<rparr>)) \<noteq> ''conjgrad''"
  by (simp add: requested_method_def no_options_def lower_def lower_char_def)

lemma mixed_case_method:
  "lower (requested_method (no_options\<lparr>method_name := Some ''ConjGrad''\<rparr>)) = ''conjgrad''"
proof -
  have "lower ''ConjGrad'' = ''conjgrad''"
    by code_simp
  then show ?thesis
    by (simp add: requested_method_def)
qed

lemma mixed_case_conjgrad:
  "conjgrad (twice 1) [] [[[1]]] None None []
     (set_default_option default_method (no_options\<lparr>method_name := Some ''ConjGrad''\<rparr>)) =
   Inr [[[1 / 2]]]"
  by code_simp

lemma mixed_case_niter:
  "conjgrad_niter (twice 1) [] [[[1]]] None None []
     (set_default_option default_method (no_options\<lparr>method_name := Some ''ConjGrad''\<rparr>)) =
   Inr 1"
  by code_simp

theorem solve_validation_errors_witness:
  "solve flagged_nonsymmetric [] [[[1]]] None None [] (no_options\<lparr>method_name := Some ''newton''\<rparr>)
     no_options = Inl (RuntimeError
        ''The solve function cannot be used for non-symmetric transformation at the moment.'') \<and>
   solve_niter flagged_nonsymmetric [] [[[1]]] None None []
     (no_options\<lparr>method_name := Some ''newton''\<rparr>) no_options = 0 \<and>
   solve ((twice 1)\<lparr>shape := (1, 2)\<rparr>) [] [[[1]]] None None [] no_options no_options =
     Inl (RuntimeError ''The solve function cannot be used for non-square transformation.'') \<and>
   solve_niter ((twice 1)\<lparr>shape := (1, 2)\<rparr>) [] [[[1]]] None None [] no_options no_options = 0 \<and>
   solve (twice 1) [] [[[1]]] None None [] (no_options\<lparr>method_name := Some ''newton''\<rparr>) no_options =
     Inl (RuntimeError ''Unknown solve method: newton'') \<and>
   solve_niter (twice 1) [] [[[1]]] None None [] (no_options\<lparr>method_name := Some ''newton''\<rparr>)
     no_options = 0 \<and>
   solve (twice 1) [] [[[1]]] None None [] (no_options\<lparr>method_name := Some ''ConjGrad''\<rparr>)
     no_options = Inr [[[1 / 2]]] \<and>
   solve_niter (twice 1) [] [[[1]]] None None [] (no_options\<lparr>method_name := Some ''ConjGrad''\<rparr>)
     no_options = 1"
proof -
  have 1: "\<not> is_symmetric flagged_nonsymmetric"
    by (simp add: flagged_nonsymmetric_def twice_def)
  have 2: "is_symmetric ((twice 1)\<lparr>shape := (1, 2)\<rparr>) \<and>
           fst (shape ((twice 1)\<lparr>shape := (1, 2)\<rparr>)) \<noteq> snd (shape ((twice 1)\<lparr>shape := (1, 2)\<rparr>))"
    by (simp add: twice_def)
  have 3: "is_symmetric (twice 1) \<and> fst (shape (twice 1)) = snd (shape (twice 1))"
    by (simp add: twice_def)
  have m: "requested_method (no_options\<lparr>method_name := Some ''newton''\<rparr>) = ''newton''"
    by (simp add: requested_method_def)
  note a = solve_validation_errors[of flagged_nonsymmetric "[]" "[[[1]]]" None None "[]"
      "no_options\<lparr>method_name := Some ''newton''\<rparr>" no_options]
  note b = solve_validation_errors[of "(twice 1)\<lparr>shape := (1, 2)\<rparr>" "[]" "[[[1]]]" None None "[]"
      no_options no_options]
  note c = solve_validation_errors[of "twice 1" "[]" "[[[1]]]" None None "[]"
      "no_options\<lparr>method_name := Some ''newton''\<rparr>" no_options]
  note d = solve_validation_errors[of "twice 1" "[]" "[[[1]]]" None None "[]"
      "no_options\<lparr>method_name := Some ''ConjGrad''\<rparr>" no_options]
  have ra: "solve flagged_nonsymmetric [] [[[1]]] None None []
      (no_options\<lparr>method_name := Some ''newton''\<rparr>) no_options = Inl (RuntimeError
        ''The solve function cannot be used for non-symmetric transformation at the moment.'') \<and>
      solve_niter flagged_nonsymmetric [] [[[1]]] None None []
        (no_options\<lparr>method_name := Some ''newton''\<rparr>) no_options = 0"
    using a 1 by blast
  have rb: "solve ((twice 1)\<lparr>shape := (1, 2)\<rparr>) [] [[[1]]] None None [] no_options no_options =
      Inl (RuntimeError ''The solve function cannot be used for non-square transformation.'') \<and>
      solve_niter ((twice 1)\<lparr>shape := (1, 2)\<rparr>) [] [[[1]]] None None [] no_options no_options = 0"
    using b 2 by blast
  have rc: "solve (twice 1) [] [[[1]]] None None []
      (no_options\<lparr>method_name := Some ''newton''\<rparr>) no_options =
        Inl (RuntimeError (''Unknown solve method: '' @ ''newton'')) \<and>
      solve_niter (twice 1) [] [[[1]]] None None []
        (no_options\<lparr>method_name := Some ''newton''\<rparr>) no_options = 0"
    using c 3 unknown_method unfolding m by blast
  have rd: "solve (twice 1) [] [[[1]]] None None []
      (no_options\<lparr>method_name := Some ''ConjGrad''\<rparr>) no_options = Inr [[[1 / 2]]] \<and>
      solve_niter (twice 1) [] [[[1]]] None None []
        (no_options\<lparr>method_name := Some ''ConjGrad''\<rparr>) no_options = 1"
    using d 3 mixed_case_method mixed_case_conjgrad mixed_case_niter by simp
  show ?thesis
    using ra rb rc rd by simp
qed

section \<open>The zero right-hand side\<close>

lemma allclose_refl: "allclose X X"
  by (auto simp: allclose_def list_all_iff zip_same)

lemma conjgrad_niter_unfold:
  assumes "is_symmetric A"
  shows "conjgrad_niter A params B biases M mparams opts =
     (let Aa = shifted_op A params biases M mparams;
          Pr = registered_precond A params biases M mparams;
          Beff = Aa B;
          X0 = zeros_like Beff
      in if allclose Beff X0 then Inr 0
         else
           (let R0 = tsub Beff (Aa (Aa X0))
            in Inr (st_niter (cg_loop (\<lambda>X. Aa (Aa X)) (\<lambda>X. Pr (Pr X)) (min_residual_of opts)
                       (max_iterations_of opts B)
                       \<lparr>st_X = X0, st_R = R0, st_P = Pr (Pr R0),
                        st_Rs_old = dot R0 (Pr (Pr R0)), st_niter = 0\<rparr>))))"
  using assms by (simp add: conjgrad_niter_def conjgrad_run_unfold Let_def)

lemma conjgrad_unfold:
  assumes "is_symmetric A"
  shows "conjgrad A params B biases M mparams opts =
     (let Aa = shifted_op A params biases M mparams;
          Pr = registered_precond A params biases M mparams;
          Beff = Aa B;
          X0 = zeros_like Beff
      in if allclose Beff X0 then Inr X0
         else
           (let R0 = tsub Beff (Aa (Aa X0))
            in Inr (st_X (cg_loop (\<lambda>X. Aa (Aa X)) (\<lambda>X. Pr (Pr X)) (min_residual_of opts)
                       (max_iterations_of opts B)
                       \<lparr>st_X = X0, st_R = R0, st_P = Pr (Pr R0),
                        st_Rs_old = dot R0 (Pr (Pr R0)), st_niter = 0\<rparr>))))"
  using assms by (simp add: conjgrad_def conjgrad_run_unfold Let_def)

lemma flat_zeros_like: "x \<in> set (flat (zeros_like T)) \<Longrightarrow> x = 0"
  by (auto simp: flat_def zeros_like_def)

text \<open>
  Claim C10. The zero-right-hand-side shortcut looks at the transformed right-hand side
  \<open>Aa(B)\<close>: whenever \<open>Aa(B)\<close> is numerically all-zero, the solver returns the all-zero
  tensor and executes no iteration of the loop, whatever \<open>B\<close> is. The example after the
  theorem has a nonzero \<open>B\<close> in the null space of \<open>Aa\<close>.
\<close>

theorem zero_shortcut_tests_transformed_rhs:
  assumes "is_symmetric A"
    and "allclose (shifted_op A params biases M mparams B)
           (zeros_like (shifted_op A params biases M mparams B))"
  shows "conjgrad A params B biases M mparams opts =
           Inr (zeros_like (shifted_op A params biases M mparams B)) \<and>
         conjgrad_niter A params B biases M mparams opts = Inr 0 \<and>
         (\<forall>x \<in> set (flat (zeros_like (shifted_op A params biases M mparams B))). x = 0)"
  using assms by (simp add: conjgrad_unfold conjgrad_niter_unfold flat_zeros_like)

theorem zero_shortcut_tests_transformed_rhs_witness:
  "[[[1]]] \<noteq> zeros_like [[[1]]] \<and>
   shifted_op (twice 1) [] (Some [[2]]) None [] [[[1]]] = [[[0]]] \<and>
   conjgrad (twice 1) [] [[[1]]] (Some [[2]]) None [] no_options = Inr [[[0]]] \<and>
   conjgrad_niter (twice 1) [] [[[1]]] (Some [[2]]) None [] no_options = Inr 0"
proof -
  have Aa: "shifted_op (twice 1) [] (Some [[2]]) None [] [[[1]]] = [[[0]]]"
    by (simp add: shifted_op_def twice_def tsub_def tmul_def tensor_op_def bcast_def unsqueeze1_def)
  have close: "allclose (shifted_op (twice 1) [] (Some [[2]]) None [] [[[1]]])
           (zeros_like (shifted_op (twice 1) [] (Some [[2]]) None [] [[[1]]]))"
    unfolding Aa by (simp add: allclose_def zeros_like_def flat_def)
  show ?thesis
    using zero_shortcut_tests_transformed_rhs[OF twice_sym close, of no_options] Aa
    by (simp add: zeros_like_def)
qed

lemma tsub_zero_bias:
  assumes "has_shape nb n nc Z" "Z = zeros_like Z" "bias_shape nb nc bs"
  shows "tsub Z (tmul (unsqueeze1 bs) Z) = Z"
proof (rule tensor_eqI[where nb = nb and n = n and nc = nc])
  have u: "has_shape nb 1 nc (unsqueeze1 bs)"
    using assms(3) by (rule unsqueeze1_shape)
  have m: "has_shape nb n nc (tmul (unsqueeze1 bs) Z)"
    unfolding tmul_def using u assms(1) by (rule tensor_op_lrow_shape)
  show "has_shape nb n nc (tsub Z (tmul (unsqueeze1 bs) Z))"
    unfolding tsub_def using assms(1) m by (rule tensor_op_shape)
  show "has_shape nb n nc Z" by fact
  fix b i c assume bic: "b < nb" "i < n" "c < nc"
  have z: "Z ! b ! i ! c = 0"
    using zeros_like_nth[OF assms(1) bic] assms(2) by simp
  have "tmul (unsqueeze1 bs) Z ! b ! i ! c = unsqueeze1 bs ! b ! 0 ! c * Z ! b ! i ! c"
    unfolding tmul_def using u assms(1) bic by (rule tensor_op_lrow_nth)
  then have mz: "tmul (unsqueeze1 bs) Z ! b ! i ! c = 0"
    by (simp add: z)
  have "tsub Z (tmul (unsqueeze1 bs) Z) ! b ! i ! c = Z ! b ! i ! c - tmul (unsqueeze1 bs) Z ! b ! i ! c"
    unfolding tsub_def using assms(1) m bic by (rule tensor_op_nth)
  then show "tsub Z (tmul (unsqueeze1 bs) Z) ! b ! i ! c = Z ! b ! i ! c"
    by (simp add: mz)
qed

lemma shifted_op_zero:
  assumes "has_shape nb n nc Z" "Z = zeros_like Z"
    and "call A Z params = Z"
    and "case biases of None \<Rightarrow> True
         | Some bs \<Rightarrow> bias_shape nb nc bs \<and>
             (case M of None \<Rightarrow> True | Some Mm \<Rightarrow> call Mm Z mparams = Z)"
  shows "shifted_op A params biases M mparams Z = Z"
proof (cases biases)
  case None
  then show ?thesis using assms(3) by (simp add: shifted_op_def)
next
  case (Some bs)
  then have bs: "bias_shape nb nc bs" and M: "(case M of None \<Rightarrow> Z | Some Mm \<Rightarrow> call Mm Z mparams) = Z"
    using assms(4) by (auto split: option.splits)
  show ?thesis
    using tsub_zero_bias[OF assms(1,2) bs] by (simp add: shifted_op_def Some assms(3) M)
qed

text \<open>
  Claim C7. For a symmetric square operator \<open>A\<close>, a call of \<open>solve\<close> with an all-zero
  right-hand side returns the all-zero tensor, and the solver executes no iteration. The
  operators are linear, which enters as: \<open>A\<close> (and \<open>M\<close>, when a bias and \<open>M\<close> are
  supplied) maps the zero tensor to itself.
\<close>

theorem solve_zero_rhs:
  assumes "is_symmetric A" and "fst (shape A) = snd (shape A)"
    and "lower (requested_method fwd_options) = ''conjgrad''"
    and "has_shape nb n nc B" and "B = zeros_like B"
    and "call A B params = B"
    and "case biases of None \<Rightarrow> True
         | Some bs \<Rightarrow> bias_shape nb nc bs \<and>
             (case M of None \<Rightarrow> True | Some Mm \<Rightarrow> call Mm B mparams = B)"
  shows "solve A params B biases M mparams fwd_options bck_options = Inr (zeros_like B) \<and>
         conjgrad_niter A params B biases M mparams opts = Inr 0"
proof -
  have Aa: "shifted_op A params biases M mparams B = B"
    using assms(4-7) by (rule shifted_op_zero)
  have Aa': "shifted_op A params biases (if biases = None then None else M) mparams B = B"
    using Aa by (cases biases) (simp_all add: shifted_op_no_bias[of A params M mparams])
  have close: "allclose B (zeros_like B)"
    using assms(5) allclose_refl[of B] by simp
  have "solve A params B biases M mparams fwd_options bck_options = Inr (zeros_like B)"
    using assms(1-3) close by (simp add: solve_unfold conjgrad_unfold Aa')
  moreover have "conjgrad_niter A params B biases M mparams opts = Inr 0"
    using assms(1) close by (simp add: conjgrad_niter_unfold Aa)
  ultimately show ?thesis by simp
qed

theorem solve_zero_rhs_witness:
  "solve (twice 2) [] [[[0], [0]]] (Some [[5]]) (Some (thrice 2)) [] no_options no_options = Inr [[[0], [0]]] \<and>
   conjgrad_niter (twice 2) [] [[[0], [0]]] (Some [[5]]) (Some (thrice 2)) [] no_options = Inr 0"
proof -
  have 1: "is_symmetric (twice 2)" "fst (shape (twice 2)) = snd (shape (twice 2))"
    by (simp_all add: twice_def)
  have 2: "lower (requested_method no_options) = ''conjgrad''"
    by (simp add: requested_method_def no_options_def lower_conjgrad)
  have 3: "has_shape 1 2 1 [[[0], [0]]]" "[[[0], [0]]] = zeros_like [[[0], [0]]]"
    by (simp_all add: has_shape_def zeros_like_def)
  have 4: "call (twice 2) [[[0], [0]]] [] = [[[0], [0]]]"
    by (simp add: twice_def)
  have 5: "case Some [[5]] of None \<Rightarrow> True
         | Some bs \<Rightarrow> bias_shape 1 1 bs \<and>
             (case Some (thrice 2) of None \<Rightarrow> True | Some Mm \<Rightarrow> call Mm [[[0], [0]]] [] = [[[0], [0]]])"
    by (simp add: bias_shape_def thrice_def)
  show ?thesis
    using solve_zero_rhs[OF 1 2 3 4 5, of no_options no_options]
    by (simp add: zeros_like_def)
qed

section \<open>Safe division and reductions\<close>

lemma clamp_shape:
  "has_shape nb n nc B \<Longrightarrow> has_shape nb n nc (map (map (map (clamp_entry eps))) B)"
  by (simp add: has_shape_nth)

lemma clamp_nth:
  "has_shape nb n nc B \<Longrightarrow> b < nb \<Longrightarrow> i < n \<Longrightarrow> c < nc \<Longrightarrow>
     map (map (map (clamp_entry eps))) B ! b ! i ! c = clamp_entry eps (B ! b ! i ! c)"
  by (simp add: has_shape_nth)

lemma safe_divide_shape:
  assumes "has_shape nb n nc A" "has_shape nb n nc B"
  shows "has_shape nb n nc (safe_divide A B)"
  unfolding safe_divide_def safe_divide_eps_def Let_def tdiv_def
  using assms(1) clamp_shape[OF assms(2)] by (rule tensor_op_shape)

lemma safe_divide_nth:
  assumes "has_shape nb n nc A" "has_shape nb n nc B" "b < nb" "i < n" "c < nc"
  shows "safe_divide A B ! b ! i ! c =
           A ! b ! i ! c / clamp_entry (1 / 10000000000) (B ! b ! i ! c)"
proof -
  have "safe_divide A B ! b ! i ! c =
      A ! b ! i ! c / map (map (map (clamp_entry (1 / 10000000000)))) B ! b ! i ! c"
    unfolding safe_divide_def safe_divide_eps_def Let_def tdiv_def
    using assms(1) clamp_shape[OF assms(2)] assms(3-5) by (rule tensor_op_nth)
  then show ?thesis
    by (simp add: clamp_nth[OF assms(2-5)])
qed

text \<open>
  Claim C8. Safe division of two tensors of the same shape divides, entry by entry, by
  the entry of \<open>B\<close>, replaced by \<open>1e-10\<close> when its absolute value is below \<open>1e-10\<close>.
  The divisor is never zero, so the division is always defined, and an entry of \<open>B\<close> of
  magnitude at least \<open>1e-10\<close> is divided by exactly.
\<close>

theorem safe_divide_clamps_denominator:
  assumes "has_shape nb n nc A" and "has_shape nb n nc B"
    and "b < nb" and "i < n" and "c < nc"
  shows "has_shape nb n nc (safe_divide A B) \<and>
         safe_divide A B ! b ! i ! c =
           A ! b ! i ! c /
             (if \<bar>B ! b ! i ! c\<bar> < 1 / 10000000000 then 1 / 10000000000 else B ! b ! i ! c) \<and>
         (if \<bar>B ! b ! i ! c\<bar> < 1 / 10000000000 then 1 / 10000000000 else B ! b ! i ! c) \<noteq> 0 \<and>
         (1 / 10000000000 \<le> \<bar>B ! b ! i ! c\<bar> \<longrightarrow>
            safe_divide A B ! b ! i ! c = A ! b ! i ! c / B ! b ! i ! c)"
  using safe_divide_shape[OF assms(1,2)] safe_divide_nth[OF assms]
  by (auto simp: clamp_entry_def)

theorem safe_divide_clamps_denominator_witness:
  "safe_divide [[[1, 6]]] [[[0, -3]]] = [[[10000000000, -2]]] \<and>
   safe_divide [[[1, 6]]] [[[0, -3]]] ! 0 ! 0 ! 0 = 1 / (1 / 10000000000) \<and>
   safe_divide [[[1, 6]]] [[[0, -3]]] ! 0 ! 0 ! 1 = 6 / (-3)"
proof -
  have 1: "has_shape 1 1 2 [[[1, 6]]]" "has_shape 1 1 2 [[[0, -3]]]"
    by (simp_all add: has_shape_def)
  have v: "safe_divide [[[1, 6]]] [[[0, -3]]] = [[[10000000000, -2]]]"
    by (simp add: safe_divide_def safe_divide_eps_def tdiv_def tensor_op_def bcast_def
        clamp_entry_def)
  show ?thesis
    using safe_divide_clamps_denominator[OF 1, of 0 0 0]
          safe_divide_clamps_denominator[OF 1, of 0 0 1] v
    by simp
qed

lemma dot_shape_nth:
  assumes "has_shape nb n nc C" "has_shape nb n nc D" "0 < n"
  shows "has_shape nb 1 nc (dot C D)"
    and "b < nb \<Longrightarrow> c < nc \<Longrightarrow> dot C D ! b ! 0 ! c = (\<Sum>i<n. C ! b ! i ! c * D ! b ! i ! c)"
proof -
  have m: "has_shape nb n nc (tmul C D)"
    unfolding tmul_def using assms(1,2) by (rule tensor_op_shape)
  have rows: "tmul C D ! b \<noteq> [] \<and> (\<forall>r\<in>set (tmul C D ! b). length r = nc) \<and> length (tmul C D ! b) = n"
    if "b < nb" for b
    using m that assms(3) by (auto simp: has_shape_nth in_set_conv_nth)
  show "has_shape nb 1 nc (dot C D)"
    using m rows
    by (simp add: has_shape_nth dot_def sum_dim1_keepdim_def sum_dim1_def unsqueeze1_def
        sum_rows_length)
  assume bc: "b < nb" "c < nc"
  have "dot C D ! b ! 0 ! c = sum_rows (tmul C D ! b) ! c"
    using m bc by (simp add: has_shape_nth dot_def sum_dim1_keepdim_def sum_dim1_def unsqueeze1_def)
  also have "\<dots> = (\<Sum>i<length (tmul C D ! b). tmul C D ! b ! i ! c)"
    using rows[OF bc(1)] bc(2) by (intro sum_rows_nth) auto
  also have "\<dots> = (\<Sum>i<n. C ! b ! i ! c * D ! b ! i ! c)"
    using rows[OF bc(1)] tensor_op_nth[OF assms(1,2) bc(1) _ bc(2), of _ "(*)"]
    by (simp add: tmul_def)
  finally show "dot C D ! b ! 0 ! c = (\<Sum>i<n. C ! b ! i ! c * D ! b ! i ! c)" .
qed



section \<open>The backward pass\<close>

lemma set_default_option_idem:
  "set_default_option default_method (set_default_option default_method opts) =
   set_default_option default_method opts"
  by (simp add: set_default_option_def default_method_def or_default_def split: option.splits)

lemma requested_method_default:
  "requested_method (set_default_option default_method opts) = requested_method opts"
  by (simp add: requested_method_def method_default)

lemma solve_backward_options:
  "solve A params g biases (if biases = None then None else M) mparams
     (set_default_option default_method bck) (set_default_option default_method bck) =
   solve A params g biases M mparams bck bck"
  by (simp add: solve_unfold requested_method_default set_default_option_idem)

lemma solve_apply_InrD:
  assumes "solve_apply A params B biases M mparams fwd bck = Inr (x, c)"
  shows "c = \<lparr>bck_config = set_default_option default_method bck, ctx_A = A,
              ctx_M = (if biases = None then None else M), ctx_biases = biases, ctx_x = x,
              ctx_params = params, ctx_mparams = mparams\<rparr>"
  using assms by (auto simp: solve_apply_unfold split: if_splits sum.splits)


lemma backward_Inl:
  assumes "solve (ctx_A c) (ctx_params c) g (ctx_biases c) (ctx_M c) (ctx_mparams c)
             (bck_config c) (bck_config c) = Inl e"
  shows "solve_torchfcn_backward vjp c g = Inl e"
  using assms by (simp add: solve_torchfcn_backward_def)

lemma backward_unfold:
  assumes "solve_torchfcn_backward vjp c g = Inr gr"
  shows "solve (ctx_A c) (ctx_params c) g (ctx_biases c) (ctx_M c) (ctx_mparams c)
           (bck_config c) (bck_config c) = Inr (grad_B gr)"
    and "grad_biases gr =
           (case ctx_biases c of
              None \<Rightarrow> None
            | Some bs \<Rightarrow> Some (sum_dim1 (tmul (grad_B gr)
                (case ctx_M c of None \<Rightarrow> ctx_x c | Some Mm \<Rightarrow> call Mm (ctx_x c) (ctx_mparams c)))))"
    and "autograd_grad vjp (\<lambda>ps. tneg (call (ctx_A c) (ctx_x c) ps)) (ctx_params c) (grad_B gr) =
           Inr (grad_params gr)"
    and "ctx_M c = None \<Longrightarrow> grad_mparams gr = []"
    and "ctx_M c = Some Mm \<Longrightarrow> \<exists>bs. ctx_biases c = Some bs \<and>
           autograd_grad vjp (\<lambda>mps. call Mm (tmul (ctx_x c) (unsqueeze1 bs)) mps) (ctx_mparams c)
             (grad_B gr) = Inr (grad_mparams gr)"
  using assms
  by (auto simp: solve_torchfcn_backward_def Let_def split: sum.splits option.splits)

lemma backward_returns:
  assumes "solve (ctx_A c) (ctx_params c) g (ctx_biases c) (ctx_M c) (ctx_mparams c)
             (bck_config c) (bck_config c) = Inr v"
    and "autograd_grad vjp (\<lambda>ps. tneg (call (ctx_A c) (ctx_x c) ps)) (ctx_params c) v = Inr gp"
    and "\<And>Mm. ctx_M c = Some Mm \<Longrightarrow> \<exists>bs gm. ctx_biases c = Some bs \<and>
           autograd_grad vjp (\<lambda>mps. call Mm (tmul (ctx_x c) (unsqueeze1 bs)) mps) (ctx_mparams c) v
             = Inr gm"
  shows "\<exists>gr. solve_torchfcn_backward vjp c g = Inr gr \<and> grad_B gr = v"
proof (cases "ctx_M c")
  case None
  then show ?thesis
    using assms(1,2) by (simp add: solve_torchfcn_backward_def Let_def)
next
  case (Some Mm)
  obtain bs gm where "ctx_biases c = Some bs"
    "autograd_grad vjp (\<lambda>mps. call Mm (tmul (ctx_x c) (unsqueeze1 bs)) mps) (ctx_mparams c) v = Inr gm"
    using assms(3)[OF Some] by blast
  then show ?thesis
    using assms(1,2) Some by (simp add: solve_torchfcn_backward_def Let_def)
qed

text \<open>
  Claim C2. In a backward call on the context of a forward call, the adjoint vector is
  the result of \<open>solve\<close> on the same \<open>A\<close>, bias, \<open>M\<close>, \<open>params\<close> and \<open>mparams\<close>
  with the incoming gradient \<open>g\<close> as right-hand side and the backward options in both
  option positions. An error of that solve is the error of the backward call; whenever
  the backward call returns, the gradient with respect to \<open>B\<close> is that vector; and the
  call does return when the solve and the calls of the differentiation engine succeed.
  The forward options do not occur: they have no influence on the backward solve.
\<close>

theorem backward_grad_B_is_adjoint_solve:
  assumes "solve_apply A params B biases M mparams fwd_options bck_options = Inr (x, c)"
  shows "(\<forall>e. solve A params g biases M mparams bck_options bck_options = Inl e \<longrightarrow>
            solve_torchfcn_backward vjp c g = Inl e) \<and>
         (\<forall>gr. solve_torchfcn_backward vjp c g = Inr gr \<longrightarrow>
            solve A params g biases M mparams bck_options bck_options = Inr (grad_B gr)) \<and>
         (\<forall>v gp.
            solve A params g biases M mparams bck_options bck_options = Inr v \<and>
            autograd_grad vjp (\<lambda>ps. tneg (call A x ps)) params v = Inr gp \<and>
            (\<forall>Mm bs. M = Some Mm \<and> biases = Some bs \<longrightarrow>
               (\<exists>gm. autograd_grad vjp (\<lambda>mps. call Mm (tmul x (unsqueeze1 bs)) mps) mparams v =
                  Inr gm)) \<longrightarrow>
            (\<exists>gr. solve_torchfcn_backward vjp c g = Inr gr \<and> grad_B gr = v))"
proof -
  note c = solve_apply_InrD[OF assms]
  have v: "solve (ctx_A c) (ctx_params c) g (ctx_biases c) (ctx_M c) (ctx_mparams c)
             (bck_config c) (bck_config c) = solve A params g biases M mparams bck_options bck_options"
    by (simp add: c solve_backward_options)
  have 1: "\<forall>e. solve A params g biases M mparams bck_options bck_options = Inl e \<longrightarrow>
            solve_torchfcn_backward vjp c g = Inl e"
    using backward_Inl[of c g _ vjp] by (simp add: v)
  have 2: "\<forall>gr. solve_torchfcn_backward vjp c g = Inr gr \<longrightarrow>
            solve A params g biases M mparams bck_options bck_options = Inr (grad_B gr)"
    using backward_unfold(1)[of vjp c g] by (simp add: v)
  have 3: "\<exists>gr. solve_torchfcn_backward vjp c g = Inr gr \<and> grad_B gr = v"
    if h: "solve A params g biases M mparams bck_options bck_options = Inr v"
      "autograd_grad vjp (\<lambda>ps. tneg (call A x ps)) params v = Inr gp"
      "\<forall>Mm bs. M = Some Mm \<and> biases = Some bs \<longrightarrow>
         (\<exists>gm. autograd_grad vjp (\<lambda>mps. call Mm (tmul x (unsqueeze1 bs)) mps) mparams v = Inr gm)"
    for v gp
  proof (rule backward_returns)
    show "solve (ctx_A c) (ctx_params c) g (ctx_biases c) (ctx_M c) (ctx_mparams c)
             (bck_config c) (bck_config c) = Inr v"
      using h(1) by (simp add: v)
    show "autograd_grad vjp (\<lambda>ps. tneg (call (ctx_A c) (ctx_x c) ps)) (ctx_params c) v = Inr gp"
      using h(2) by (simp add: c)
    fix Mm assume M: "ctx_M c = Some Mm"
    then obtain bs where bs: "biases = Some bs" "M = Some Mm"
      by (cases biases) (simp_all add: c)
    then obtain gm where
      "autograd_grad vjp (\<lambda>mps. call Mm (tmul x (unsqueeze1 bs)) mps) mparams v = Inr gm"
      using h(3) by blast
    then show "\<exists>bs gm. ctx_biases c = Some bs \<and>
           autograd_grad vjp (\<lambda>mps. call Mm (tmul (ctx_x c) (unsqueeze1 bs)) mps) (ctx_mparams c) v
             = Inr gm"
      using bs by (simp add: c)
  qed
  show ?thesis
    using 1 2 3 by blast
qed

lemma ex_adjoint_solve:
  "solve (scale_by 2) [[2]] [[[13], [26]]] (Some [[5]]) (Some (scale_by_M 2)) [[3]]
     no_options no_options = Inr [[[-1], [-2]]]"
  by code_simp

lemma ex_forward_conjgrad:
  "conjgrad (scale_by 2) [[2]] [[[-13], [-26]]] (Some [[5]]) (Some (scale_by_M 2)) [[3]]
     (set_default_option default_method (no_options\<lparr>max_niter := Some 5\<rparr>)) = Inr [[[1], [2]]]"
  by code_simp

lemma ex_forward:
  "solve_apply (scale_by 2) [[2]] [[[-13], [-26]]] (Some [[5]]) (Some (scale_by_M 2)) [[3]]
     (no_options\<lparr>max_niter := Some 5\<rparr>) no_options = Inr ([[[1], [2]]], ex_ctx)"
proof -
  have 1: "is_symmetric (scale_by 2)" "fst (shape (scale_by 2)) = snd (shape (scale_by 2))"
    by (simp_all add: scale_by_def)
  have 2: "lower (requested_method (no_options\<lparr>max_niter := Some 5\<rparr>)) = ''conjgrad''"
    by (simp add: requested_method_def no_options_def lower_conjgrad)
  show ?thesis
    using ex_forward_conjgrad
    by (simp add: solve_apply_unfold 1 2 ex_ctx_def)
qed

lemma ex_backward:
  "solve_torchfcn_backward affine_vjp ex_ctx [[[13], [26]]] = Inr ex_grads"
  by code_simp

lemma ex_backward_no_params:
  "solve_torchfcn_backward affine_vjp (ex_ctx\<lparr>ctx_params := []\<rparr>) [[[13], [26]]] =
     Inl (RuntimeError ''grad requires non-empty inputs.'')"
  by code_simp

theorem backward_grad_B_is_adjoint_solve_witness:
  "solve_apply (scale_by 2) [[2]] [[[-13], [-26]]] (Some [[5]]) (Some (scale_by_M 2)) [[3]]
     (no_options\<lparr>max_niter := Some 5\<rparr>) no_options = Inr ([[[1], [2]]], ex_ctx) \<and>
   solve_torchfcn_backward affine_vjp ex_ctx [[[13], [26]]] = Inr ex_grads \<and>
   solve (scale_by 2) [[2]] [[[13], [26]]] (Some [[5]]) (Some (scale_by_M 2)) [[3]]
     no_options no_options = Inr (grad_B ex_grads) \<and>
   grad_B ex_grads = [[[-1], [-2]]] \<and>
   solve_torchfcn_backward affine_vjp (ex_ctx\<lparr>ctx_params := []\<rparr>) [[[13], [26]]] =
     Inl (RuntimeError ''grad requires non-empty inputs.'')"
proof -
  note w = backward_grad_B_is_adjoint_solve[OF ex_forward, of "[[[13], [26]]]" affine_vjp]
  have "solve (scale_by 2) [[2]] [[[13], [26]]] (Some [[5]]) (Some (scale_by_M 2)) [[3]]
     no_options no_options = Inr (grad_B ex_grads)"
    using w ex_backward by blast
  then show ?thesis
    using ex_forward ex_backward ex_backward_no_params by (simp add: ex_grads_def)
qed




lemma ex_params_gradient:
  "affine_vjp (\<lambda>ps. negated 1 2 1 (call (scale_by 2) [[[1], [2]]] ps)) [[2]] [[[-1], [-2]]] =
     Inr [[5]]"
  by code_simp

lemma ex_mparams_gradient:
  "affine_vjp (\<lambda>mps. call (scale_by_M 2) (times_bias 1 2 1 [[[1], [2]]] [[5]]) mps) [[3]]
     [[[-1], [-2]]] = Inr [[-25]]"
  by code_simp



section \<open>The iteration\<close>

lemma tsub_zeros:
  assumes "has_shape nb n nc T"
  shows "tsub T (zeros_like T) = T"
proof (rule tensor_eqI[where nb = nb and n = n and nc = nc])
  have z: "has_shape nb n nc (zeros_like T)"
    using assms by (rule zeros_like_shape)
  show "has_shape nb n nc (tsub T (zeros_like T))"
    unfolding tsub_def using assms z by (rule tensor_op_shape)
  show "has_shape nb n nc T" by fact
  fix b i c assume bic: "b < nb" "i < n" "c < nc"
  have "tsub T (zeros_like T) ! b ! i ! c = T ! b ! i ! c - zeros_like T ! b ! i ! c"
    unfolding tsub_def using assms z bic by (rule tensor_op_nth)
  then show "tsub T (zeros_like T) ! b ! i ! c = T ! b ! i ! c"
    using zeros_like_nth[OF assms bic] by simp
qed

lemma cg_iterate_Suc:
  "cg_iterate Aeff Peff e (Suc k) (X, R, P, rho) =
     (let Q = Aeff P;
          alpha = safe_divide rho (dot P Q);
          X' = tadd X (tmul alpha P);
          R' = tsub R (tmul alpha Q);
          Z = Peff R';
          rho_new = dot R' Z
      in if tmax (tabs rho_new) < e then X'
         else cg_iterate Aeff Peff e k
                (X', R', tadd Z (tmul (safe_divide rho_new rho) P), rho_new))"
  by (simp add: cg_step_def cg_converged_def cg_advance_def cg_update_def Let_def)

lemma set_flat:
  assumes "has_shape nb n nc T"
  shows "set (flat T) = {T ! b ! i ! c | b i c. b < nb \<and> i < n \<and> c < nc}"
proof (intro set_eqI iffI)
  fix x assume "x \<in> set (flat T)"
  then obtain m r where m: "m \<in> set T" and r: "r \<in> set m" and x: "x \<in> set r"
    by (auto simp: flat_def)
  from m obtain b where b: "b < length T" "m = T ! b"
    by (auto simp: in_set_conv_nth)
  from r b obtain i where i: "i < length (T ! b)" "r = T ! b ! i"
    by (auto simp: in_set_conv_nth)
  from x i obtain c where c: "c < length (T ! b ! i)" "x = T ! b ! i ! c"
    by (auto simp: in_set_conv_nth)
  have "b < nb" "i < n" "c < nc"
    using assms b(1) i(1) c(1) by (simp_all add: has_shape_nth)
  then show "x \<in> {T ! b ! i ! c | b i c. b < nb \<and> i < n \<and> c < nc}"
    using c(2) by blast
next
  fix x assume "x \<in> {T ! b ! i ! c | b i c. b < nb \<and> i < n \<and> c < nc}"
  then obtain b i c where bic: "b < nb" "i < n" "c < nc" and x: "x = T ! b ! i ! c"
    by blast
  have "T ! b \<in> set T" "T ! b ! i \<in> set (T ! b)" "T ! b ! i ! c \<in> set (T ! b ! i)"
    using assms bic by (simp_all add: has_shape_nth)
  then show "x \<in> set (flat T)"
    unfolding x flat_def by (auto simp: set_concat)
qed

lemma tabs_shape: "has_shape nb n nc T \<Longrightarrow> has_shape nb n nc (tabs T)"
  by (simp add: has_shape_nth tabs_def)

lemma tabs_nth:
  "has_shape nb n nc T \<Longrightarrow> b < nb \<Longrightarrow> i < n \<Longrightarrow> c < nc \<Longrightarrow> tabs T ! b ! i ! c = \<bar>T ! b ! i ! c\<bar>"
  by (simp add: has_shape_nth tabs_def)

lemma tmax_tabs_less:
  assumes "has_shape nb n nc T" "0 < nb" "0 < n" "0 < nc"
  shows "tmax (tabs T) < e \<longleftrightarrow> (\<forall>b<nb. \<forall>i<n. \<forall>c<nc. \<bar>T ! b ! i ! c\<bar> < e)"
proof -
  let ?S = "set (flat (tabs T))"
  have S: "?S = {tabs T ! b ! i ! c | b i c. b < nb \<and> i < n \<and> c < nc}"
    using tabs_shape[OF assms(1)] by (rule set_flat)
  have "tabs T ! 0 ! 0 ! 0 \<in> ?S"
    unfolding S using assms(2-4) by blast
  then have ne: "?S \<noteq> {}" by auto
  have "tmax (tabs T) < e \<longleftrightarrow> (\<forall>a\<in>?S. a < e)"
    unfolding tmax_def using ne by (intro Max_less_iff) simp_all
  also have "\<dots> \<longleftrightarrow> (\<forall>b<nb. \<forall>i<n. \<forall>c<nc. tabs T ! b ! i ! c < e)"
    unfolding S by blast
  also have "\<dots> \<longleftrightarrow> (\<forall>b<nb. \<forall>i<n. \<forall>c<nc. \<bar>T ! b ! i ! c\<bar> < e)"
    using tabs_nth[OF assms(1)] by simp
  finally show ?thesis .
qed

text \<open>
  Claim C4. When the shortcut does not fire, \<open>conjgrad\<close> returns what the iteration of
  the specification returns from \<open>X0 = 0\<close>, \<open>R0 = Beff\<close>, \<open>Z0 = Peff(R0)\<close>,
  \<open>rho0 = dot(R0, Z0)\<close>. One iteration computes \<open>Q = Aeff(P)\<close>,
  \<open>alpha = safe_divide(rho, dot(P, Q))\<close>, \<open>X + alpha * P\<close>, \<open>R - alpha * Q\<close>,
  \<open>Z = Peff(R)\<close>, \<open>rho_new = dot(R, Z)\<close>; it stops with the just-updated \<open>X\<close> when
  the largest absolute value of \<open>rho_new\<close> is below the threshold, and otherwise goes on
  with \<open>P = Z + safe_divide(rho_new, rho) * P\<close> and \<open>rho = rho_new\<close>. The operations
  of the iteration are given entry by entry: the dot product sums over the \<open>n\<close>
  dimension and keeps batch and columns; the stopping test holds exactly when every entry
  of \<open>rho_new\<close>, over all batch members and columns, is below the threshold in absolute
  value; sum and difference are entrywise; \<open>alpha\<close> multiplies every row of its batch
  member and column; safe division clamps the divisor. \<open>R0 = Beff\<close> rests on the
  linearity of the operator: \<open>Aeff\<close> maps the zero tensor to itself.
\<close>

theorem conjgrad_iteration:
  assumes "is_symmetric A"
    and "Aa = shifted_op A params biases M mparams"
    and "Aeff = (\<lambda>X. Aa (Aa X))"
    and "Peff = (\<lambda>X. registered_precond A params biases M mparams
                        (registered_precond A params biases M mparams X))"
    and "Beff = Aa B"
    and "has_shape nb n nc Beff"
    and "Aeff (zeros_like Beff) = zeros_like Beff"
    and "\<not> allclose Beff (zeros_like Beff)"
  shows "conjgrad A params B biases M mparams opts =
           Inr (cg_iterate Aeff Peff (min_residual_of opts) (max_iterations_of opts B)
                  (zeros_like Beff, Beff, Peff Beff, dot Beff (Peff Beff))) \<and>
         (\<forall>k X R P rho.
            cg_iterate Aeff Peff (min_residual_of opts) (Suc k) (X, R, P, rho) =
              (let Q = Aeff P;
                   alpha = safe_divide rho (dot P Q);
                   X' = tadd X (tmul alpha P);
                   R' = tsub R (tmul alpha Q);
                   Z = Peff R';
                   rho_new = dot R' Z
               in if tmax (tabs rho_new) < min_residual_of opts then X'
                  else cg_iterate Aeff Peff (min_residual_of opts) k
                         (X', R', tadd Z (tmul (safe_divide rho_new rho) P), rho_new))) \<and>
         (\<forall>C D. has_shape nb n nc C \<and> has_shape nb n nc D \<and> 0 < n \<longrightarrow>
            has_shape nb 1 nc (dot C D) \<and>
            (\<forall>b<nb. \<forall>c<nc. dot C D ! b ! 0 ! c = (\<Sum>i<n. C ! b ! i ! c * D ! b ! i ! c))) \<and>
         (\<forall>T e. has_shape nb 1 nc T \<and> 0 < nb \<and> 0 < nc \<longrightarrow>
            (tmax (tabs T) < e \<longleftrightarrow> (\<forall>b<nb. \<forall>c<nc. \<bar>T ! b ! 0 ! c\<bar> < e))) \<and>
         (\<forall>X Y. has_shape nb n nc X \<and> has_shape nb n nc Y \<longrightarrow>
            (\<forall>b<nb. \<forall>i<n. \<forall>c<nc.
               tadd X Y ! b ! i ! c = X ! b ! i ! c + Y ! b ! i ! c \<and>
               tsub X Y ! b ! i ! c = X ! b ! i ! c - Y ! b ! i ! c)) \<and>
         (\<forall>a X. has_shape nb 1 nc a \<and> has_shape nb n nc X \<longrightarrow>
            (\<forall>b<nb. \<forall>i<n. \<forall>c<nc. tmul a X ! b ! i ! c = a ! b ! 0 ! c * X ! b ! i ! c)) \<and>
         (\<forall>a d. has_shape nb 1 nc a \<and> has_shape nb 1 nc d \<longrightarrow>
            (\<forall>b<nb. \<forall>c<nc.
               safe_divide a d ! b ! 0 ! c =
                 a ! b ! 0 ! c /
                   (if \<bar>d ! b ! 0 ! c\<bar> < 1 / 10000000000 then 1 / 10000000000
                    else d ! b ! 0 ! c)))"
proof -
  have R0: "tsub Beff (Aeff (zeros_like Beff)) = Beff"
    using assms(6,7) by (simp add: tsub_zeros)
  have "conjgrad A params B biases M mparams opts =
      Inr (solve_cg Aeff Beff Peff (max_iterations_of opts B) (min_residual_of opts))"
    using assms(1) by (simp add: conjgrad_solve_cg assms(2-5))
  also have "solve_cg Aeff Beff Peff (max_iterations_of opts B) (min_residual_of opts) =
      cg_iterate Aeff Peff (min_residual_of opts) (max_iterations_of opts B)
        (zeros_like Beff, Beff, Peff Beff, dot Beff (Peff Beff))"
    using assms(8) by (simp add: solve_cg_def Let_def R0)
  finally have 1: "conjgrad A params B biases M mparams opts =
           Inr (cg_iterate Aeff Peff (min_residual_of opts) (max_iterations_of opts B)
                  (zeros_like Beff, Beff, Peff Beff, dot Beff (Peff Beff)))" .
  have 3: "\<forall>C D. has_shape nb n nc C \<and> has_shape nb n nc D \<and> 0 < n \<longrightarrow>
            has_shape nb 1 nc (dot C D) \<and>
            (\<forall>b<nb. \<forall>c<nc. dot C D ! b ! 0 ! c = (\<Sum>i<n. C ! b ! i ! c * D ! b ! i ! c))"
    using dot_shape_nth by blast
  have 4: "\<forall>T e. has_shape nb 1 nc T \<and> 0 < nb \<and> 0 < nc \<longrightarrow>
            (tmax (tabs T) < e \<longleftrightarrow> (\<forall>b<nb. \<forall>c<nc. \<bar>T ! b ! 0 ! c\<bar> < e))"
  proof (intro allI impI)
    fix T e assume "has_shape nb 1 nc T \<and> 0 < nb \<and> 0 < nc"
    then have "tmax (tabs T) < e \<longleftrightarrow> (\<forall>b<nb. \<forall>i<1. \<forall>c<nc. \<bar>T ! b ! i ! c\<bar> < e)"
      by (intro tmax_tabs_less) simp_all
    then show "tmax (tabs T) < e \<longleftrightarrow> (\<forall>b<nb. \<forall>c<nc. \<bar>T ! b ! 0 ! c\<bar> < e)"
      by simp
  qed
  have 5: "\<forall>X Y. has_shape nb n nc X \<and> has_shape nb n nc Y \<longrightarrow>
            (\<forall>b<nb. \<forall>i<n. \<forall>c<nc.
               tadd X Y ! b ! i ! c = X ! b ! i ! c + Y ! b ! i ! c \<and>
               tsub X Y ! b ! i ! c = X ! b ! i ! c - Y ! b ! i ! c)"
  proof (intro allI impI conjI)
    fix X Y b i c
    assume h: "has_shape nb n nc X \<and> has_shape nb n nc Y" and bic: "b < nb" "i < n" "c < nc"
    show "tadd X Y ! b ! i ! c = X ! b ! i ! c + Y ! b ! i ! c"
      unfolding tadd_def using h bic by (intro tensor_op_nth) simp_all
    show "tsub X Y ! b ! i ! c = X ! b ! i ! c - Y ! b ! i ! c"
      unfolding tsub_def using h bic by (intro tensor_op_nth) simp_all
  qed
  have 6: "\<forall>a X. has_shape nb 1 nc a \<and> has_shape nb n nc X \<longrightarrow>
            (\<forall>b<nb. \<forall>i<n. \<forall>c<nc. tmul a X ! b ! i ! c = a ! b ! 0 ! c * X ! b ! i ! c)"
  proof (intro allI impI)
    fix a X b i c
    assume h: "has_shape nb 1 nc a \<and> has_shape nb n nc X" and bic: "b < nb" "i < n" "c < nc"
    show "tmul a X ! b ! i ! c = a ! b ! 0 ! c * X ! b ! i ! c"
      unfolding tmul_def using h bic by (intro tensor_op_lrow_nth) simp_all
  qed
  have 7: "\<forall>a d. has_shape nb 1 nc a \<and> has_shape nb 1 nc d \<longrightarrow>
            (\<forall>b<nb. \<forall>c<nc.
               safe_divide a d ! b ! 0 ! c =
                 a ! b ! 0 ! c /
                   (if \<bar>d ! b ! 0 ! c\<bar> < 1 / 10000000000 then 1 / 10000000000
                    else d ! b ! 0 ! c))"
  proof (intro allI impI)
    fix a d b c assume h: "has_shape nb 1 nc a \<and> has_shape nb 1 nc d" and bc: "b < nb" "c < nc"
    have "safe_divide a d ! b ! 0 ! c =
        a ! b ! 0 ! c / clamp_entry (1 / 10000000000) (d ! b ! 0 ! c)"
      using safe_divide_nth[of nb 1 nc a d b 0 c] h bc by simp
    then show "safe_divide a d ! b ! 0 ! c =
                 a ! b ! 0 ! c /
                   (if \<bar>d ! b ! 0 ! c\<bar> < 1 / 10000000000 then 1 / 10000000000
                    else d ! b ! 0 ! c)"
      by (simp add: clamp_entry_def)
  qed
  have 2: "\<forall>k X R P rho.
            cg_iterate Aeff Peff (min_residual_of opts) (Suc k) (X, R, P, rho) =
              (let Q = Aeff P;
                   alpha = safe_divide rho (dot P Q);
                   X' = tadd X (tmul alpha P);
                   R' = tsub R (tmul alpha Q);
                   Z = Peff R';
                   rho_new = dot R' Z
               in if tmax (tabs rho_new) < min_residual_of opts then X'
                  else cg_iterate Aeff Peff (min_residual_of opts) k
                         (X', R', tadd Z (tmul (safe_divide rho_new rho) P), rho_new))"
    using cg_iterate_Suc by blast
  show ?thesis
    by (rule conjI[OF 1 conjI[OF 2 conjI[OF 3 conjI[OF 4 conjI[OF 5 conjI[OF 6 7]]]]]])
qed

lemma rot_call: "call diag12_rot = call diag12"
  by (simp add: diag12_rot_def)

lemma rot_shifted: "shifted_op diag12_rot [] None None [] = (\<lambda>X. call diag12 X [])"
  by (simp add: shifted_op_def fun_eq_iff rot_call)

lemma rot_precond: "registered_precond diag12_rot [] None None [] = map rot2"
  by (simp add: registered_precond_def diag12_rot_def fun_eq_iff)

lemma rot_sym: "is_symmetric diag12_rot"
  by (simp add: diag12_rot_def diag12_def)

lemma rot_rhs: "call diag12 [[[1, 1], [1, 0]]] [] = [[[1, 1], [2, 0]]]"
  by (simp add: diag12_def)

lemma rot_zero:
  "call diag12 (call diag12 (zeros_like [[[1, 1], [2, 0]]]) []) [] = zeros_like [[[1, 1], [2, 0]]]"
  by (simp add: diag12_def zeros_like_def)

lemma rot_not_close: "\<not> allclose [[[1, 1], [2, 0]]] (zeros_like [[[1, 1], [2, 0]]])"
  by (simp add: allclose_def zeros_like_def flat_def)

lemma rot_solution:
  "conjgrad diag12_rot [] [[[1, 1], [1, 0]]] None None [] no_options = Inr [[[1, 1], [1 / 2, 0]]]"
  by code_simp

lemma rot_niter:
  "conjgrad_niter diag12_rot [] [[[1, 1], [1, 0]]] None None [] no_options = Inr 2"
  by code_simp

lemma rot_first_residual:
  "dot [[[12 / 17, 0], [- 6 / 17, 0]]] (map rot2 (map rot2 [[[12 / 17, 0], [- 6 / 17, 0]]])) =
     [[[- 180 / 289, 0]]]"
  by code_simp

theorem conjgrad_iteration_witness:
  "conjgrad diag12_rot [] [[[1, 1], [1, 0]]] None None [] no_options =
     Inr (cg_iterate (\<lambda>X. call diag12 (call diag12 X []) []) (\<lambda>X. map rot2 (map rot2 X))
            (1 / 1000000) 2
            (zeros_like [[[1, 1], [2, 0]]], [[[1, 1], [2, 0]]],
             map rot2 (map rot2 [[[1, 1], [2, 0]]]),
             dot [[[1, 1], [2, 0]]] (map rot2 (map rot2 [[[1, 1], [2, 0]]])))) \<and>
   conjgrad diag12_rot [] [[[1, 1], [1, 0]]] None None [] no_options =
     Inr [[[1, 1], [1 / 2, 0]]] \<and>
   conjgrad_niter diag12_rot [] [[[1, 1], [1, 0]]] None None [] no_options = Inr 2 \<and>
   dot [[[12 / 17, 0], [- 6 / 17, 0]]] (map rot2 (map rot2 [[[12 / 17, 0], [- 6 / 17, 0]]])) =
     [[[- 180 / 289, 0]]] \<and>
   \<not> tmax (tabs [[[- 180 / 289, 0]]]) < 1 / 1000000"
proof -
  have shape: "has_shape 1 2 2 (shifted_op diag12_rot [] None None [] [[[1, 1], [1, 0]]])"
    by (simp add: rot_shifted rot_rhs has_shape_def)
  have lin: "(\<lambda>X. shifted_op diag12_rot [] None None [] (shifted_op diag12_rot [] None None [] X))
               (zeros_like (shifted_op diag12_rot [] None None [] [[[1, 1], [1, 0]]])) =
             zeros_like (shifted_op diag12_rot [] None None [] [[[1, 1], [1, 0]]])"
    by (simp add: rot_shifted rot_rhs rot_zero)
  have nz: "\<not> allclose (shifted_op diag12_rot [] None None [] [[[1, 1], [1, 0]]])
              (zeros_like (shifted_op diag12_rot [] None None [] [[[1, 1], [1, 0]]]))"
    by (simp add: rot_shifted rot_rhs rot_not_close)
  have opts: "min_residual_of no_options = 1 / 1000000"
    "max_iterations_of no_options [[[1, 1], [1, 0]]] = 2"
    by (simp_all add: min_residual_of_def max_iterations_of_def no_options_def dim1_def)
  note w = conjgrad_iteration[OF rot_sym refl refl refl refl shape lin nz, of no_options]
  have a: "conjgrad diag12_rot [] [[[1, 1], [1, 0]]] None None [] no_options =
     Inr (cg_iterate (\<lambda>X. call diag12 (call diag12 X []) []) (\<lambda>X. map rot2 (map rot2 X))
            (1 / 1000000) 2
            (zeros_like [[[1, 1], [2, 0]]], [[[1, 1], [2, 0]]],
             map rot2 (map rot2 [[[1, 1], [2, 0]]]),
             dot [[[1, 1], [2, 0]]] (map rot2 (map rot2 [[[1, 1], [2, 0]]]))))"
    using conjunct1[OF w] by (simp add: rot_shifted rot_precond rot_rhs opts)
  have test: "\<forall>T e. has_shape 1 1 2 T \<and> (0::nat) < 1 \<and> (0::nat) < 2 \<longrightarrow>
            (tmax (tabs T) < e \<longleftrightarrow> (\<forall>b<1. \<forall>c<2. \<bar>T ! b ! 0 ! c\<bar> < e))"
    by (rule w[THEN conjunct2, THEN conjunct2, THEN conjunct2, THEN conjunct1])
  have "tmax (tabs [[[- 180 / 289, 0]]]) < 1 / 1000000 \<longleftrightarrow>
      (\<forall>b<1. \<forall>c<2. \<bar>[[[- 180 / 289, 0 :: real]]] ! b ! 0 ! c\<bar> < 1 / 1000000)"
    by (rule test[rule_format]) (simp add: has_shape_def)
  moreover have "\<not> (\<forall>b<1. \<forall>c<2. \<bar>[[[- 180 / 289, 0 :: real]]] ! b ! 0 ! c\<bar> < 1 / 1000000)"
    by (auto intro!: exI[of _ 0])
  ultimately have b: "\<not> tmax (tabs [[[- 180 / 289, 0]]]) < 1 / 1000000"
    by blast
  show ?thesis
    using a b rot_solution rot_niter rot_first_residual by simp
qed

lemma cg_loop_exhaust:
  assumes "\<forall>k<N. \<not> cg_converged A P e ((cg_advance A P ^^ k) (cg_vars_of st))"
  shows "cg_vars_of (cg_loop A P e N st) = (cg_advance A P ^^ N) (cg_vars_of st) \<and>
         st_niter (cg_loop A P e N st) = st_niter st + N"
  using assms
proof (induction N arbitrary: st)
  case 0
  show ?case by simp
next
  case (Suc N)
  let ?st' = "\<lparr>st_X = fst (cg_advance A P (cg_vars_of st)),
               st_R = fst (snd (cg_advance A P (cg_vars_of st))),
               st_P = fst (snd (snd (cg_advance A P (cg_vars_of st)))),
               st_Rs_old = snd (snd (snd (cg_advance A P (cg_vars_of st)))),
               st_niter = Suc (st_niter st)\<rparr>"
  have nc: "\<not> cg_converged A P e (cg_vars_of st)"
    using Suc.prems by (auto dest: spec[where x = 0])
  have step: "cg_loop A P e (Suc N) st = cg_loop A P e N ?st'"
    using nc
    by (simp add: cg_converged_def cg_advance_def cg_update_def cg_vars_of_def Let_def)
  have v': "cg_vars_of ?st' = cg_advance A P (cg_vars_of st)"
    by (simp add: cg_vars_of_def)
  have "\<forall>k<N. \<not> cg_converged A P e ((cg_advance A P ^^ k) (cg_vars_of ?st'))"
  proof (intro allI impI)
    fix k assume "k < N"
    then have "\<not> cg_converged A P e ((cg_advance A P ^^ Suc k) (cg_vars_of st))"
      using Suc.prems by (auto simp del: funpow.simps)
    then show "\<not> cg_converged A P e ((cg_advance A P ^^ k) (cg_vars_of ?st'))"
      by (simp add: v' funpow_swap1)
  qed
  from Suc.IH[OF this]
  show ?case
    unfolding step by (simp add: v' funpow_swap1 del: cg_loop.simps)
qed

text \<open>
  Claim C6. When none of the \<open>max_iterations\<close> iterations meets the convergence
  threshold, \<open>conjgrad\<close> returns the \<open>X\<close> of the last iteration as an ordinary
  result, a plain tensor, having executed exactly \<open>max_iterations\<close> loop bodies. With
  \<open>max_iterations = 0\<close> the result is the initial all-zero tensor, whatever the
  right-hand side.
\<close>

theorem conjgrad_exhausts_iterations:
  assumes "is_symmetric A"
    and "Aa = shifted_op A params biases M mparams"
    and "Aeff = (\<lambda>X. Aa (Aa X))"
    and "Peff = (\<lambda>X. registered_precond A params biases M mparams
                        (registered_precond A params biases M mparams X))"
    and "Beff = Aa B"
    and "R0 = tsub Beff (Aeff (zeros_like Beff))"
    and "s0 = (zeros_like Beff, R0, Peff R0, dot R0 (Peff R0))"
    and "N = max_iterations_of opts B"
  shows "(\<not> allclose Beff (zeros_like Beff) \<and>
          (\<forall>k<N. \<not> cg_converged Aeff Peff (min_residual_of opts) ((cg_advance Aeff Peff ^^ k) s0)) \<longrightarrow>
            conjgrad A params B biases M mparams opts = Inr (fst ((cg_advance Aeff Peff ^^ N) s0)) \<and>
            conjgrad_niter A params B biases M mparams opts = Inr N) \<and>
         (N = 0 \<longrightarrow>
            conjgrad A params B biases M mparams opts = Inr (zeros_like Beff) \<and>
            conjgrad_niter A params B biases M mparams opts = Inr 0)"
proof (intro conjI impI)
  let ?st0 = "\<lparr>st_X = zeros_like Beff, st_R = R0, st_P = Peff R0, st_Rs_old = dot R0 (Peff R0),
               st_niter = 0\<rparr>"
  have v0: "cg_vars_of ?st0 = s0"
    by (simp add: cg_vars_of_def assms(7))
  have run: "conjgrad_run A params B biases M mparams opts =
      (if allclose Beff (zeros_like Beff) then Inr (zeros_like Beff, 0)
       else Inr (st_X (cg_loop Aeff Peff (min_residual_of opts) N ?st0),
                 st_niter (cg_loop Aeff Peff (min_residual_of opts) N ?st0)))"
    using assms(1) by (simp add: conjgrad_run_unfold Let_def assms(2-6,8))
  {
    assume h: "\<not> allclose Beff (zeros_like Beff) \<and>
          (\<forall>k<N. \<not> cg_converged Aeff Peff (min_residual_of opts) ((cg_advance Aeff Peff ^^ k) s0))"
    then have "\<forall>k<N. \<not> cg_converged Aeff Peff (min_residual_of opts)
                 ((cg_advance Aeff Peff ^^ k) (cg_vars_of ?st0))"
      unfolding v0 by blast
    from cg_loop_exhaust[OF this]
    have ex: "cg_vars_of (cg_loop Aeff Peff (min_residual_of opts) N ?st0) = (cg_advance Aeff Peff ^^ N) s0"
      "st_niter (cg_loop Aeff Peff (min_residual_of opts) N ?st0) = N"
      by (simp_all only: v0) simp
    have "st_X (cg_loop Aeff Peff (min_residual_of opts) N ?st0) =
        fst (cg_vars_of (cg_loop Aeff Peff (min_residual_of opts) N ?st0))"
      by (simp add: cg_vars_of_def)
    then have X: "st_X (cg_loop Aeff Peff (min_residual_of opts) N ?st0) = fst ((cg_advance Aeff Peff ^^ N) s0)"
      by (simp only: ex(1))
    show "conjgrad A params B biases M mparams opts = Inr (fst ((cg_advance Aeff Peff ^^ N) s0))"
      using h X by (simp add: conjgrad_def run)
    show "conjgrad_niter A params B biases M mparams opts = Inr N"
      using h ex(2) by (simp add: conjgrad_niter_def run)
  }
  {
    assume "N = 0"
    then show "conjgrad A params B biases M mparams opts = Inr (zeros_like Beff)"
      by (simp add: conjgrad_def run)
    from \<open>N = 0\<close> show "conjgrad_niter A params B biases M mparams opts = Inr 0"
      by (simp add: conjgrad_niter_def run)
  }
qed

lemma diag12_shifted: "shifted_op diag12 [] None None [] = (\<lambda>X. call diag12 X [])"
  by (simp add: shifted_op_def fun_eq_iff)

lemma diag12_precond: "registered_precond diag12 [] None None [] = (\<lambda>X. X)"
  by (simp add: registered_precond_def diag12_def fun_eq_iff)

lemma diag12_sym: "is_symmetric diag12"
  by (simp add: diag12_def)

lemma diag12_rhs: "call diag12 [[[1], [1]]] [] = [[[1], [2]]]"
  by (simp add: diag12_def)

lemma diag12_not_close: "\<not> allclose [[[1], [2]]] (zeros_like [[[1], [2]]])"
  by (simp add: allclose_def zeros_like_def flat_def)

lemma diag12_R0:
  "tsub [[[1], [2]]] (call diag12 (call diag12 (zeros_like [[[1], [2]]]) []) []) = [[[1], [2]]]"
  by code_simp

lemma diag12_rho0: "dot [[[1], [2]]] [[[1], [2]]] = [[[5]]]"
  by code_simp

lemma diag12_not_converged:
  "\<not> cg_converged (\<lambda>X. call diag12 (call diag12 X []) []) (\<lambda>X. X) (1 / 1000000)
       (zeros_like [[[1], [2]]], [[[1], [2]]], [[[1], [2]]], [[[5]]])"
  by code_simp

lemma diag12_advance:
  "fst (cg_advance (\<lambda>X. call diag12 (call diag12 X []) []) (\<lambda>X. X)
         (zeros_like [[[1], [2]]], [[[1], [2]]], [[[1], [2]]], [[[5]]])) = [[[5 / 17], [10 / 17]]]"
  by code_simp

theorem conjgrad_exhausts_iterations_witness:
  "conjgrad diag12 [] [[[1], [1]]] None None [] (no_options\<lparr>max_niter := Some 1\<rparr>) =
     Inr [[[5 / 17], [10 / 17]]] \<and>
   conjgrad_niter diag12 [] [[[1], [1]]] None None [] (no_options\<lparr>max_niter := Some 1\<rparr>) = Inr 1 \<and>
   conjgrad diag12 [] [[[1], [1]]] None None [] (no_options\<lparr>max_niter := Some 0\<rparr>) =
     Inr [[[0], [0]]] \<and>
   conjgrad_niter diag12 [] [[[1], [1]]] None None [] (no_options\<lparr>max_niter := Some 0\<rparr>) = Inr 0"
proof -
  have o1: "min_residual_of (no_options\<lparr>max_niter := Some 1\<rparr>) = 1 / 1000000"
    "max_iterations_of (no_options\<lparr>max_niter := Some 1\<rparr>) [[[1], [1]]] = Suc 0"
    by (simp_all add: min_residual_of_def max_iterations_of_def no_options_def)
  have o0: "max_iterations_of (no_options\<lparr>max_niter := Some 0\<rparr>) [[[1], [1]]] = 0"
    by (simp add: max_iterations_of_def)
  note w1 = conjgrad_exhausts_iterations[OF diag12_sym refl refl refl refl refl refl refl,
      of "[]" None None "[]" "[[[1], [1]]]" "no_options\<lparr>max_niter := Some 1\<rparr>"]
  note w0 = conjgrad_exhausts_iterations[OF diag12_sym refl refl refl refl refl refl refl,
      of "[]" None None "[]" "[[[1], [1]]]" "no_options\<lparr>max_niter := Some 0\<rparr>"]
  have a: "conjgrad diag12 [] [[[1], [1]]] None None [] (no_options\<lparr>max_niter := Some 1\<rparr>) =
     Inr [[[5 / 17], [10 / 17]]] \<and>
   conjgrad_niter diag12 [] [[[1], [1]]] None None [] (no_options\<lparr>max_niter := Some 1\<rparr>) = Inr 1"
    using conjunct1[OF w1] diag12_not_close diag12_not_converged diag12_advance
    by (simp add: diag12_shifted diag12_precond diag12_rhs diag12_R0 diag12_rho0 o1)
  have b: "conjgrad diag12 [] [[[1], [1]]] None None [] (no_options\<lparr>max_niter := Some 0\<rparr>) =
     Inr [[[0], [0]]] \<and>
   conjgrad_niter diag12 [] [[[1], [1]]] None None [] (no_options\<lparr>max_niter := Some 0\<rparr>) = Inr 0"
    using conjunct2[OF w0]
    by (simp add: diag12_shifted diag12_rhs o0 zeros_like_def)
  show ?thesis
    using a b by simp
qed

end
